theory Spec2Isabelle
  imports Main "HOL-Library.Word"
begin

section \<open>The views window of atom/browser/native\_window\_views.cc\<close>

text \<open>
  A shallow embedding of \<^verbatim>\<open>NativeWindowViews\<close>. A C++ member \<^verbatim>\<open>m_\<close> is the record
  field \<open>m\<close> (a field name cannot end in an underscore). The file is compiled for one of
  two platforms, selected by the preprocessor; the platform is an explicit argument of
  every function whose body has an \<^verbatim>\<open>#if\<close>.
\<close>

datatype platform = OS_WIN | USE_X11

subsection \<open>Geometry (ui/gfx)\<close>

text \<open>
  Coordinates and extents are C++ \<^verbatim>\<open>int\<close>s of 32 bits. A field holds the value as an
  integer in the range of the type, and a sum or difference the code computes is wrapped
  into that range (two's complement), as the compiled code does.
\<close>

definition is_int32 :: "int \<Rightarrow> bool" where
  "is_int32 v = (- 2147483648 \<le> v \<and> v \<le> 2147483647)"

definition int32 :: "int \<Rightarrow> int" where
  "int32 v = (v + 2147483648) mod 4294967296 - 2147483648"

record gfx_Point =
  point_x :: int
  point_y :: int

record gfx_Size =
  size_width :: int
  size_height :: int

record gfx_Rect =
  rect_origin :: gfx_Point
  rect_size :: gfx_Size

definition rect_x :: "gfx_Rect \<Rightarrow> int" where
  "rect_x r = point_x (rect_origin r)"

definition rect_y :: "gfx_Rect \<Rightarrow> int" where
  "rect_y r = point_y (rect_origin r)"

definition rect_width :: "gfx_Rect \<Rightarrow> int" where
  "rect_width r = size_width (rect_size r)"

definition rect_height :: "gfx_Rect \<Rightarrow> int" where
  "rect_height r = size_height (rect_size r)"

definition rect_right :: "gfx_Rect \<Rightarrow> int" where
  "rect_right r = int32 (rect_x r + rect_width r)"

definition rect_bottom :: "gfx_Rect \<Rightarrow> int" where
  "rect_bottom r = int32 (rect_y r + rect_height r)"

text \<open>\<^verbatim>\<open>gfx::Size::set_height\<close> stores a negative height as 0.\<close>

definition size_set_height :: "int \<Rightarrow> gfx_Size \<Rightarrow> gfx_Size" where
  "size_set_height h sz = sz\<lparr>size_height := (if h < 0 then 0 else h)\<rparr>"

definition rect_set_size :: "gfx_Size \<Rightarrow> gfx_Rect \<Rightarrow> gfx_Rect" where
  "rect_set_size sz r = r\<lparr>rect_size := sz\<rparr>"

definition rect_set_height :: "int \<Rightarrow> gfx_Rect \<Rightarrow> gfx_Rect" where
  "rect_set_height h r = r\<lparr>rect_size := size_set_height h (rect_size r)\<rparr>"

text \<open>\<^verbatim>\<open>gfx::Rect(x, y, width, height)\<close>; a negative extent is stored as 0.\<close>

definition mk_Rect :: "int \<Rightarrow> int \<Rightarrow> int \<Rightarrow> int \<Rightarrow> gfx_Rect" where
  "mk_Rect px py w h =
     \<lparr>rect_origin = \<lparr>point_x = px, point_y = py\<rparr>,
      rect_size = \<lparr>size_width = (if w < 0 then 0 else w),
                   size_height = (if h < 0 then 0 else h)\<rparr>\<rparr>"

subsection \<open>Regions (SkRegion)\<close>

text \<open>
  A region is the set of pixels it covers. \<^verbatim>\<open>SkRegion::op(left, top, right, bottom, op)\<close>
  combines the region with the rectangle of the pixels \<open>(px, py)\<close> with
  \<open>left \<le> px < right\<close> and \<open>top \<le> py < bottom\<close>.
\<close>

type_synonym SkRegion = "(int \<times> int) set"

datatype SkRegion_Op =
  kDifference_Op | kIntersect_Op | kUnion_Op | kXOR_Op | kReverseDifference_Op | kReplace_Op

definition SkIRect_pixels :: "int \<Rightarrow> int \<Rightarrow> int \<Rightarrow> int \<Rightarrow> SkRegion" where
  "SkIRect_pixels l t r b = {p. l \<le> fst p \<and> fst p < r \<and> t \<le> snd p \<and> snd p < b}"

definition SkRegion_new :: SkRegion where
  "SkRegion_new = {}"

fun SkRegion_op :: "SkRegion \<Rightarrow> int \<Rightarrow> int \<Rightarrow> int \<Rightarrow> int \<Rightarrow> SkRegion_Op \<Rightarrow> SkRegion" where
  "SkRegion_op rgn l t r b kDifference_Op = rgn - SkIRect_pixels l t r b"
| "SkRegion_op rgn l t r b kIntersect_Op = rgn \<inter> SkIRect_pixels l t r b"
| "SkRegion_op rgn l t r b kUnion_Op = rgn \<union> SkIRect_pixels l t r b"
| "SkRegion_op rgn l t r b kXOR_Op =
     (rgn - SkIRect_pixels l t r b) \<union> (SkIRect_pixels l t r b - rgn)"
| "SkRegion_op rgn l t r b kReverseDifference_Op = SkIRect_pixels l t r b - rgn"
| "SkRegion_op rgn l t r b kReplace_Op = SkIRect_pixels l t r b"

definition SkRegion_contains :: "SkRegion \<Rightarrow> int \<Rightarrow> int \<Rightarrow> bool" where
  "SkRegion_contains rgn px py = ((px, py) \<in> rgn)"

record DraggableRegion =
  draggable :: bool
  bounds :: gfx_Rect

subsection \<open>Keyboard events (content::NativeWebKeyboardEvent)\<close>

datatype WebInputEvent_Type = RawKeyDown | KeyDown | KeyUp | Char | OtherEventType

record NativeWebKeyboardEvent =
  event_type :: WebInputEvent_Type
  windowsKeyCode :: int
  modifiers :: "32 word"

text \<open>The modifier bits of \<^verbatim>\<open>blink::WebInputEvent::Modifiers\<close> the file uses.\<close>

definition AltKey :: "32 word" where
  "AltKey = push_bit 2 1"

definition IsLeft :: "32 word" where
  "IsLeft = push_bit 11 1"

definition IsRight :: "32 word" where
  "IsRight = push_bit 12 1"

definition VKEY_MENU :: int where
  "VKEY_MENU = 18"

definition IsAltKey :: "platform \<Rightarrow> NativeWebKeyboardEvent \<Rightarrow> bool" where
  "IsAltKey plat event =
     (case plat of
        USE_X11 \<Rightarrow> windowsKeyCode event = 164 \<or> windowsKeyCode event = 165
      | OS_WIN \<Rightarrow> windowsKeyCode event = VKEY_MENU)"

definition IsAltModifier :: "NativeWebKeyboardEvent \<Rightarrow> bool" where
  "IsAltModifier event =
     (modifiers event = AltKey \<or>
      modifiers event = or AltKey IsLeft \<or>
      modifiers event = or AltKey IsRight)"

subsection \<open>The toolkit\<close>

text \<open>
  The widget, its non-client view and its frame view belong to the GUI toolkit. Their
  state is a value of an arbitrary type \<open>'w\<close>, and the toolkit calls the file makes are
  the fields of a record of functions on it: every theorem holds for every toolkit.
  \<open>UnhandledKeyboardEvent\<close> is \<^verbatim>\<open>keyboard_event_handler_->HandleKeyboardEvent\<close>; what
  the toolkit calls back (an accelerator, an activation change) is a call of its own.
  \<open>GetWindowLong_style\<close> and \<open>SetWindowLong_style\<close> read and write the style bits of the
  window's handle.
\<close>

datatype InitParams_Type = TYPE_WINDOW | TYPE_BUBBLE

record InitParams =
  params_bounds :: gfx_Rect
  params_type :: InitParams_Type
  params_remove_standard_frame :: bool

record 'w toolkit =
  Widget_Init :: "InitParams \<Rightarrow> 'w"
  Widget_UpdateWindowIcon :: "'w \<Rightarrow> 'w"
  Widget_CenterWindow :: "gfx_Size \<Rightarrow> 'w \<Rightarrow> 'w"
  Widget_Maximize :: "'w \<Rightarrow> 'w"
  Widget_Restore :: "'w \<Rightarrow> 'w"
  Widget_SetSize :: "gfx_Size \<Rightarrow> 'w \<Rightarrow> 'w"
  Widget_SetBounds :: "gfx_Rect \<Rightarrow> 'w \<Rightarrow> 'w"
  Widget_IsMinimized :: "'w \<Rightarrow> bool"
  Widget_GetRestoredBounds :: "'w \<Rightarrow> gfx_Rect"
  Widget_GetWindowBoundsInScreen :: "'w \<Rightarrow> gfx_Rect"
  GetWindowBoundsForClientBounds :: "'w \<Rightarrow> gfx_Rect \<Rightarrow> gfx_Rect"
  GetBoundsForClientView :: "'w \<Rightarrow> gfx_Rect"
  ResizingBorderHitTest :: "'w \<Rightarrow> gfx_Point \<Rightarrow> int"
  UnhandledKeyboardEvent :: "NativeWebKeyboardEvent \<Rightarrow> 'w \<Rightarrow> 'w"
  GetAcceleratedWidget :: "'w \<Rightarrow> nat"
  GetWindowLong_style :: "'w \<Rightarrow> 32 word"
  SetWindowLong_style :: "32 word \<Rightarrow> 'w \<Rightarrow> 'w"

definition HTNOWHERE :: int where
  "HTNOWHERE = 0"

subsection \<open>The window\<close>

datatype view_id = WebView | MenuBarView

datatype 'm MenuBar = MenuBar (bar_menu: "'m option")

datatype 'm GlobalMenuBarX11 = GlobalMenuBarX11 (global_menu: "'m option")

datatype HandlerPriority = kNormalPriority | kHighPriority

datatype accelerator_target = ThisWindow | OtherTarget nat

text \<open>
  The members the functions below read or write; the title, the icon and the minimum and
  maximum sizes are left out. \<open>children\<close> are the child views of the contents view, in order. \<open>focus_manager\<close> is the
  registry of the widget's focus manager, one entry for each registered (accelerator,
  priority, target). \<open>taskbar\<close> is the set of window handles that have a tab in the Windows
  taskbar. An entry of the accelerator table is an accelerator with its menu item
  (position, model), in the table's iteration order.
\<close>

record ('w, 'a, 'm) NativeWindowViews =
  has_frame :: bool
  window :: 'w
  menu_bar :: "'m MenuBar option"
  global_menu_bar :: "'m GlobalMenuBarX11 option"
  menu_bar_autohide :: bool
  menu_bar_visible :: bool
  menu_bar_alt_pressed :: bool
  use_content_size :: bool
  resizable :: bool
  accelerator_table :: "('a \<times> int \<times> 'm) list"
  draggable_region :: "SkRegion option"
  children :: "view_id list"
  focus_manager :: "('a \<times> HandlerPriority \<times> accelerator_target) list"
  taskbar :: "nat set"

definition kMenuBarHeight :: "platform \<Rightarrow> int" where
  "kMenuBarHeight plat = (case plat of OS_WIN \<Rightarrow> 20 | USE_X11 \<Rightarrow> 25)"

subsection \<open>Window state and geometry\<close>

definition Maximize ::
  "'w toolkit \<Rightarrow> ('w, 'a, 'm) NativeWindowViews \<Rightarrow> ('w, 'a, 'm) NativeWindowViews" where
  "Maximize tk s = s\<lparr>window := Widget_Maximize tk (window s)\<rparr>"

definition Unmaximize ::
  "'w toolkit \<Rightarrow> ('w, 'a, 'm) NativeWindowViews \<Rightarrow> ('w, 'a, 'm) NativeWindowViews" where
  "Unmaximize tk s = s\<lparr>window := Widget_Restore tk (window s)\<rparr>"

definition Restore ::
  "'w toolkit \<Rightarrow> ('w, 'a, 'm) NativeWindowViews \<Rightarrow> ('w, 'a, 'm) NativeWindowViews" where
  "Restore tk s = s\<lparr>window := Widget_Restore tk (window s)\<rparr>"

definition IsMinimized :: "'w toolkit \<Rightarrow> ('w, 'a, 'm) NativeWindowViews \<Rightarrow> bool" where
  "IsMinimized tk s = Widget_IsMinimized tk (window s)"

definition SetSize ::
  "'w toolkit \<Rightarrow> gfx_Size \<Rightarrow> ('w, 'a, 'm) NativeWindowViews \<Rightarrow> ('w, 'a, 'm) NativeWindowViews" where
  "SetSize tk sz s = s\<lparr>window := Widget_SetSize tk sz (window s)\<rparr>"

definition GetSize :: "platform \<Rightarrow> 'w toolkit \<Rightarrow> ('w, 'a, 'm) NativeWindowViews \<Rightarrow> gfx_Size" where
  "GetSize plat tk s =
     (if plat = OS_WIN \<and> IsMinimized tk s
      then rect_size (Widget_GetRestoredBounds tk (window s))
      else rect_size (Widget_GetWindowBoundsInScreen tk (window s)))"

definition GetPosition :: "platform \<Rightarrow> 'w toolkit \<Rightarrow> ('w, 'a, 'm) NativeWindowViews \<Rightarrow> gfx_Point" where
  "GetPosition plat tk s =
     (if plat = OS_WIN \<and> IsMinimized tk s
      then rect_origin (Widget_GetRestoredBounds tk (window s))
      else rect_origin (Widget_GetWindowBoundsInScreen tk (window s)))"

definition ContentBoundsToWindowBounds ::
  "platform \<Rightarrow> 'w toolkit \<Rightarrow> ('w, 'a, 'm) NativeWindowViews \<Rightarrow> gfx_Rect \<Rightarrow> gfx_Rect" where
  "ContentBoundsToWindowBounds plat tk s bnds =
     (let window_bounds = GetWindowBoundsForClientBounds tk (window s) bnds
      in if menu_bar s \<noteq> None \<and> menu_bar_visible s
         then rect_set_height (int32 (rect_height window_bounds + kMenuBarHeight plat))
                window_bounds
         else window_bounds)"

definition SetContentSize ::
  "platform \<Rightarrow> 'w toolkit \<Rightarrow> gfx_Size \<Rightarrow> ('w, 'a, 'm) NativeWindowViews \<Rightarrow>
   ('w, 'a, 'm) NativeWindowViews" where
  "SetContentSize plat tk sz s =
     (if \<not> has_frame s then SetSize tk sz s
      else
        let bnds = rect_set_size sz (Widget_GetWindowBoundsInScreen tk (window s))
        in s\<lparr>window := Widget_SetBounds tk (ContentBoundsToWindowBounds plat tk s bnds) (window s)\<rparr>)"

definition GetContentSize ::
  "platform \<Rightarrow> 'w toolkit \<Rightarrow> ('w, 'a, 'm) NativeWindowViews \<Rightarrow> gfx_Size" where
  "GetContentSize plat tk s =
     (if \<not> has_frame s then GetSize plat tk s
      else
        let content_size = rect_size (GetBoundsForClientView tk (window s))
        in if menu_bar s \<noteq> None \<and> menu_bar_visible s
           then size_set_height (int32 (size_height content_size - kMenuBarHeight plat))
                  content_size
           else content_size)"

definition CanResize :: "('w, 'a, 'm) NativeWindowViews \<Rightarrow> bool" where
  "CanResize s = resizable s"

subsection \<open>Draggable regions and hit testing\<close>

text \<open>The loop of \<^verbatim>\<open>UpdateDraggableRegions\<close>, from the region built so far.\<close>

fun apply_draggable_regions :: "SkRegion \<Rightarrow> DraggableRegion list \<Rightarrow> SkRegion" where
  "apply_draggable_regions rgn [] = rgn"
| "apply_draggable_regions rgn (region # rest) =
     apply_draggable_regions
       (SkRegion_op rgn
          (rect_x (bounds region)) (rect_y (bounds region))
          (rect_right (bounds region)) (rect_bottom (bounds region))
          (if draggable region then kUnion_Op else kDifference_Op))
       rest"

definition UpdateDraggableRegions ::
  "DraggableRegion list \<Rightarrow> ('w, 'a, 'm) NativeWindowViews \<Rightarrow> ('w, 'a, 'm) NativeWindowViews" where
  "UpdateDraggableRegions regions s =
     (if has_frame s then s
      else s\<lparr>draggable_region := Some (apply_draggable_regions SkRegion_new regions)\<rparr>)"

text \<open>
  The region in the words of the specification: start from the empty region and, in
  list order, take the union with a draggable rectangle and the difference with a
  non-draggable one. The rectangle of a \<^verbatim>\<open>gfx::Rect\<close> is the set of the pixels from its
  origin up to, and without, its origin plus its extent. \<open>edges_fit\<close> says that the right
  and the bottom edge of a rectangle are values of a 32-bit \<^verbatim>\<open>int\<close>.
\<close>

definition edges_fit :: "gfx_Rect \<Rightarrow> bool" where
  "edges_fit r =
     (is_int32 (rect_x r + rect_width r) \<and> is_int32 (rect_y r + rect_height r))"

definition rect_pixels :: "gfx_Rect \<Rightarrow> (int \<times> int) set" where
  "rect_pixels r =
     {p. rect_x r \<le> fst p \<and> fst p < rect_x r + rect_width r \<and>
         rect_y r \<le> snd p \<and> snd p < rect_y r + rect_height r}"

definition draggable_region_spec :: "DraggableRegion list \<Rightarrow> (int \<times> int) set" where
  "draggable_region_spec regions =
     foldl (\<lambda>rgn d. if draggable d then rgn \<union> rect_pixels (bounds d)
                     else rgn - rect_pixels (bounds d)) {} regions"

definition ShouldDescendIntoChildForEventHandling ::
  "'w toolkit \<Rightarrow> gfx_Point \<Rightarrow> ('w, 'a, 'm) NativeWindowViews \<Rightarrow> bool" where
  "ShouldDescendIntoChildForEventHandling tk location s =
     (if (case draggable_region s of
            None \<Rightarrow> False
          | Some rgn \<Rightarrow> SkRegion_contains rgn (point_x location) (point_y location))
      then False
      else if \<not> has_frame s \<and> CanResize s
      then ResizingBorderHitTest tk (window s) location = HTNOWHERE
      else True)"

subsection \<open>Accelerators\<close>

text \<open>
  The focus manager's registry: \<^verbatim>\<open>UnregisterAccelerators(target)\<close> drops every entry of
  the target, \<^verbatim>\<open>RegisterAccelerator\<close> adds one entry.
\<close>

definition FocusManager_UnregisterAccelerators ::
  "accelerator_target \<Rightarrow> ('a \<times> HandlerPriority \<times> accelerator_target) list \<Rightarrow>
   ('a \<times> HandlerPriority \<times> accelerator_target) list" where
  "FocusManager_UnregisterAccelerators target fm = filter (\<lambda>r. snd (snd r) \<noteq> target) fm"

definition FocusManager_RegisterAccelerator ::
  "'a \<Rightarrow> HandlerPriority \<Rightarrow> accelerator_target \<Rightarrow>
   ('a \<times> HandlerPriority \<times> accelerator_target) list \<Rightarrow>
   ('a \<times> HandlerPriority \<times> accelerator_target) list" where
  "FocusManager_RegisterAccelerator accel prio target fm = fm @ [(accel, prio, target)]"

text \<open>The loop of \<^verbatim>\<open>RegisterAccelerators\<close> over the entries of the table.\<close>

fun register_table ::
  "('a \<times> int \<times> 'm) list \<Rightarrow> ('a \<times> HandlerPriority \<times> accelerator_target) list \<Rightarrow>
   ('a \<times> HandlerPriority \<times> accelerator_target) list" where
  "register_table [] fm = fm"
| "register_table (entry # rest) fm =
     register_table rest
       (FocusManager_RegisterAccelerator (fst entry) kNormalPriority ThisWindow fm)"

text \<open>
  \<^verbatim>\<open>accelerator_util::GenerateAcceleratorTable(&table, menu_model)\<close> is the argument
  \<open>gen\<close>: from the table it is given and the menu model, the table it leaves.
\<close>

definition RegisterAccelerators ::
  "(('a \<times> int \<times> 'm) list \<Rightarrow> 'm \<Rightarrow> ('a \<times> int \<times> 'm) list) \<Rightarrow> 'm \<Rightarrow>
   ('w, 'a, 'm) NativeWindowViews \<Rightarrow> ('w, 'a, 'm) NativeWindowViews" where
  "RegisterAccelerators gen menu_model s =
     (let s1 = s\<lparr>accelerator_table := []\<rparr>;
          s2 = s1\<lparr>focus_manager :=
                    FocusManager_UnregisterAccelerators ThisWindow (focus_manager s1)\<rparr>;
          s3 = s2\<lparr>accelerator_table := gen (accelerator_table s2) menu_model\<rparr>
      in s3\<lparr>focus_manager := register_table (accelerator_table s3) (focus_manager s3)\<rparr>)"

subsection \<open>The menu bar\<close>

text \<open>
  A failed \<^verbatim>\<open>DCHECK\<close> is the error value. \<^verbatim>\<open>View::AddChildView\<close> appends a view that is
  not yet a child, \<^verbatim>\<open>View::RemoveChildView\<close> takes a child away. \<^verbatim>\<open>Layout()\<close> places the
  child views and changes nothing the record holds.
\<close>

datatype error = DCheckFailed

definition View_AddChildView :: "view_id \<Rightarrow> view_id list \<Rightarrow> view_id list" where
  "View_AddChildView v cs = (if v \<in> set cs then cs else cs @ [v])"

definition View_RemoveChildView :: "view_id \<Rightarrow> view_id list \<Rightarrow> view_id list" where
  "View_RemoveChildView v cs = removeAll v cs"

definition child_count :: "('w, 'a, 'm) NativeWindowViews \<Rightarrow> int" where
  "child_count s = int (length (children s))"

definition SetMenuBarVisibility ::
  "bool \<Rightarrow> ('w, 'a, 'm) NativeWindowViews \<Rightarrow> error + ('w, 'a, 'm) NativeWindowViews" where
  "SetMenuBarVisibility visible s =
     (if menu_bar s = None then Inr s
      else
        let s1 = s\<lparr>menu_bar_visible := visible\<rparr>
        in if visible
           then (if child_count s1 \<noteq> 1 then Inl DCheckFailed
                 else Inr (s1\<lparr>children := View_AddChildView MenuBarView (children s1)\<rparr>))
           else (if child_count s1 \<noteq> 2 then Inl DCheckFailed
                 else Inr (s1\<lparr>children := View_RemoveChildView MenuBarView (children s1)\<rparr>)))"

text \<open>
  What \<^verbatim>\<open>SetMenu\<close> asks the desktop: the two conjuncts of \<^verbatim>\<open>ShouldUseGlobalMenuBar()\<close>
  and the answer of \<^verbatim>\<open>GlobalMenuBarX11::IsServerStarted()\<close>.
\<close>

record x11_env =
  unity_IsRunning :: bool
  desktop_is_unity :: bool
  IsServerStarted :: bool

definition ShouldUseGlobalMenuBar :: "x11_env \<Rightarrow> bool" where
  "ShouldUseGlobalMenuBar env = (unity_IsRunning env \<and> desktop_is_unity env)"

definition create_menu_bar ::
  "platform \<Rightarrow> 'w toolkit \<Rightarrow> ('w, 'a, 'm) NativeWindowViews \<Rightarrow>
   error + ('w, 'a, 'm) NativeWindowViews" where
  "create_menu_bar plat tk s =
     (let content_size = GetContentSize plat tk s;
          s1 = s\<lparr>menu_bar := Some (MenuBar None)\<rparr>
      in if \<not> menu_bar_autohide s1
         then (case SetMenuBarVisibility True s1 of
                 Inl e \<Rightarrow> Inl e
               | Inr s2 \<Rightarrow>
                   Inr (if use_content_size s2 then SetContentSize plat tk content_size s2
                        else s2))
         else Inr s1)"

definition SetMenu ::
  "platform \<Rightarrow> 'w toolkit \<Rightarrow> (('a \<times> int \<times> 'm) list \<Rightarrow> 'm \<Rightarrow> ('a \<times> int \<times> 'm) list) \<Rightarrow>
   x11_env \<Rightarrow> 'm \<Rightarrow> ('w, 'a, 'm) NativeWindowViews \<Rightarrow>
   error + ('w, 'a, 'm) NativeWindowViews" where
  "SetMenu plat tk gen env menu_model s =
     (let s1 = RegisterAccelerators gen menu_model s;
          s2 = (if plat = USE_X11 \<and> global_menu_bar s1 = None \<and> ShouldUseGlobalMenuBar env
                then s1\<lparr>global_menu_bar := Some (GlobalMenuBarX11 None)\<rparr>
                else s1)
      in if plat = USE_X11 \<and> global_menu_bar s2 \<noteq> None \<and> IsServerStarted env
         then Inr (s2\<lparr>global_menu_bar := Some (GlobalMenuBarX11 (Some menu_model))\<rparr>)
         else if \<not> has_frame s2 then Inr s2
         else
           (case (if menu_bar s2 = None then create_menu_bar plat tk s2 else Inr s2) of
              Inl e \<Rightarrow> Inl e
            | Inr s3 \<Rightarrow> Inr (s3\<lparr>menu_bar := Some (MenuBar (Some menu_model))\<rparr>)))"

text \<open>
  \<open>same_widget\<close> is the test \<^verbatim>\<open>widget == window_.get()\<close>. The focus and blur
  notifications go to the observers of the base class, and focusing goes to the web
  contents: they change nothing the record holds.
\<close>

definition OnWidgetActivationChanged ::
  "bool \<Rightarrow> bool \<Rightarrow> ('w, 'a, 'm) NativeWindowViews \<Rightarrow> error + ('w, 'a, 'm) NativeWindowViews" where
  "OnWidgetActivationChanged same_widget active s =
     (if \<not> same_widget then Inr s
      else if \<not> active \<and> menu_bar_autohide s \<and> menu_bar_visible s
      then SetMenuBarVisibility False s
      else Inr s)"

definition HandleMouseDown ::
  "('w, 'a, 'm) NativeWindowViews \<Rightarrow> error + ('w, 'a, 'm) NativeWindowViews" where
  "HandleMouseDown s =
     (if menu_bar_autohide s \<and> menu_bar_visible s then SetMenuBarVisibility False s
      else Inr s)"

definition HandleKeyboardEvent ::
  "platform \<Rightarrow> 'w toolkit \<Rightarrow> NativeWebKeyboardEvent \<Rightarrow> ('w, 'a, 'm) NativeWindowViews \<Rightarrow>
   error + ('w, 'a, 'm) NativeWindowViews" where
  "HandleKeyboardEvent plat tk event s =
     (let s0 = s\<lparr>window := UnhandledKeyboardEvent tk event (window s)\<rparr>
      in if \<not> menu_bar_autohide s0 then Inr s0
         else if event_type event = RawKeyDown \<and> IsAltKey plat event \<and> IsAltModifier event
         then Inr (s0\<lparr>menu_bar_alt_pressed := True\<rparr>)
         else if event_type event = KeyUp \<and> IsAltKey plat event \<and> modifiers event = 0 \<and>
                 menu_bar_alt_pressed s0
         then (let s1 = s0\<lparr>menu_bar_alt_pressed := False\<rparr>
               in SetMenuBarVisibility (\<not> menu_bar_visible s1) s1)
         else Inr (s0\<lparr>menu_bar_alt_pressed := False\<rparr>))"

subsection \<open>Taskbar and closing\<close>

text \<open>
  An \<^verbatim>\<open>HRESULT\<close> is a signed 32-bit value and \<^verbatim>\<open>FAILED\<close> tests its sign. The results of
  \<^verbatim>\<open>CreateInstance\<close> and of \<^verbatim>\<open>HrInit\<close> come from the system: they are arguments.
\<close>

definition FAILED :: "32 word \<Rightarrow> bool" where
  "FAILED hr = (sint hr < 0)"

definition ITaskbarList_DeleteTab :: "nat \<Rightarrow> nat set \<Rightarrow> nat set" where
  "ITaskbarList_DeleteTab hwnd tabs = tabs - {hwnd}"

definition ITaskbarList_AddTab :: "nat \<Rightarrow> nat set \<Rightarrow> nat set" where
  "ITaskbarList_AddTab hwnd tabs = insert hwnd tabs"

definition SetSkipTaskbar ::
  "platform \<Rightarrow> 'w toolkit \<Rightarrow> 32 word \<Rightarrow> 32 word \<Rightarrow> bool \<Rightarrow>
   ('w, 'a, 'm) NativeWindowViews \<Rightarrow> ('w, 'a, 'm) NativeWindowViews" where
  "SetSkipTaskbar plat tk create_hr init_hr skip s =
     (case plat of
        USE_X11 \<Rightarrow> s
      | OS_WIN \<Rightarrow>
          if FAILED create_hr \<or> FAILED init_hr then s
          else if skip
          then s\<lparr>taskbar := ITaskbarList_DeleteTab (GetAcceleratedWidget tk (window s)) (taskbar s)\<rparr>
          else s\<lparr>taskbar := ITaskbarList_AddTab (GetAcceleratedWidget tk (window s)) (taskbar s)\<rparr>)"

text \<open>
  \<^verbatim>\<open>NativeWindowClientView::CanClose\<close>: the window after \<^verbatim>\<open>CloseWebContents()\<close>, a
  function of the base class and here the argument \<open>CloseWebContents\<close>, and the value
  returned.
\<close>

definition CanClose ::
  "(('w, 'a, 'm) NativeWindowViews \<Rightarrow> ('w, 'a, 'm) NativeWindowViews) \<Rightarrow>
   ('w, 'a, 'm) NativeWindowViews \<Rightarrow> ('w, 'a, 'm) NativeWindowViews \<times> bool" where
  "CanClose CloseWebContents s = (CloseWebContents s, False)"

subsection \<open>Resizability\<close>

definition WS_MAXIMIZEBOX :: "32 word" where
  "WS_MAXIMIZEBOX = 0x00010000"

definition WS_MINIMIZEBOX :: "32 word" where
  "WS_MINIMIZEBOX = 0x00020000"

definition WS_THICKFRAME :: "32 word" where
  "WS_THICKFRAME = 0x00040000"

definition SetResizable ::
  "platform \<Rightarrow> 'w toolkit \<Rightarrow> bool \<Rightarrow> ('w, 'a, 'm) NativeWindowViews \<Rightarrow>
   ('w, 'a, 'm) NativeWindowViews" where
  "SetResizable plat tk rsz s =
     (let s1 = s\<lparr>resizable := rsz\<rparr>
      in if plat = OS_WIN \<and> has_frame s1
         then
           (let style = GetWindowLong_style tk (window s1);
                style' = (if rsz
                          then or style (or (or WS_MAXIMIZEBOX WS_MINIMIZEBOX) WS_THICKFRAME)
                          else or (and style (not (or WS_MAXIMIZEBOX WS_THICKFRAME)))
                                  WS_MINIMIZEBOX)
            in s1\<lparr>window := SetWindowLong_style tk style' (window s1)\<rparr>)
         else s1)"

subsection \<open>Construction\<close>

text \<open>
  The options dictionary: \<^verbatim>\<open>options.Get(key, &out)\<close> is true and assigns when the key is
  present. \<open>frame\<close> is \<^verbatim>\<open>has_frame_\<close>, set by the base class. \<open>fm0\<close> and \<open>tabs0\<close> are the
  focus manager's registry and the taskbar as the new window finds them.
\<close>

record window_options =
  opt_resizable :: "bool option"
  opt_auto_hide_menu_bar :: "bool option"
  opt_width :: "int option"
  opt_height :: "int option"
  opt_skip_taskbar :: "bool option"
  opt_use_content_size :: "bool option"

definition NativeWindowViews_new ::
  "platform \<Rightarrow> 'w toolkit \<Rightarrow> bool \<Rightarrow> window_options \<Rightarrow>
   ('a \<times> HandlerPriority \<times> accelerator_target) list \<Rightarrow> nat set \<Rightarrow>
   ('w, 'a, 'm) NativeWindowViews" where
  "NativeWindowViews_new plat tk frame opts fm0 tabs0 =
     (let bnds = mk_Rect 0 0 (case opt_width opts of None \<Rightarrow> 800 | Some w \<Rightarrow> w)
                             (case opt_height opts of None \<Rightarrow> 600 | Some h \<Rightarrow> h);
          params = \<lparr>params_bounds = bnds,
                    params_type = (if plat = USE_X11 \<and> opt_skip_taskbar opts = Some True
                                   then TYPE_BUBBLE else TYPE_WINDOW),
                    params_remove_standard_frame = (\<not> frame)\<rparr>;
          s0 = \<lparr>has_frame = frame,
                window = Widget_Init tk params,
                menu_bar = None,
                global_menu_bar = None,
                menu_bar_autohide =
                  (case opt_auto_hide_menu_bar opts of None \<Rightarrow> False | Some b \<Rightarrow> b),
                menu_bar_visible = False,
                menu_bar_alt_pressed = False,
                use_content_size =
                  (if frame then (case opt_use_content_size opts of None \<Rightarrow> False | Some b \<Rightarrow> b)
                   else False),
                resizable = (case opt_resizable opts of None \<Rightarrow> True | Some b \<Rightarrow> b),
                accelerator_table = [],
                draggable_region = None,
                children = [WebView],
                focus_manager = fm0,
                taskbar = tabs0\<rparr>;
          bnds' = (if frame \<and> opt_use_content_size opts \<noteq> None \<and> use_content_size s0
                   then ContentBoundsToWindowBounds plat tk s0 bnds else bnds)
      in s0\<lparr>window := Widget_CenterWindow tk (rect_size bnds')
                         (Widget_UpdateWindowIcon tk (window s0))\<rparr>)"

subsection \<open>Runs of a window\<close>

text \<open>
  The calls a window receives. \<open>OpWidget f\<close> stands for the member functions that only
  forward to the widget (\<^verbatim>\<open>Close\<close>, \<^verbatim>\<open>Show\<close>, \<^verbatim>\<open>Hide\<close>, \<^verbatim>\<open>Minimize\<close>,
  \<^verbatim>\<open>SetFullscreen\<close>, \<^verbatim>\<open>Center\<close>, ...) and for what the toolkit does to the widget by
  itself. A window state is reachable when a sequence of calls, none of which fails an
  assertion, leads from a newly constructed window to it.
\<close>

datatype ('w, 'm) operation =
    OpWidget "'w \<Rightarrow> 'w"
  | OpMaximize
  | OpUnmaximize
  | OpRestore
  | OpSetSize gfx_Size
  | OpSetContentSize gfx_Size
  | OpSetResizable bool
  | OpSetSkipTaskbar "32 word" "32 word" bool
  | OpSetMenu x11_env 'm
  | OpUpdateDraggableRegions "DraggableRegion list"
  | OpOnWidgetActivationChanged bool bool
  | OpHandleMouseDown
  | OpHandleKeyboardEvent NativeWebKeyboardEvent

fun step ::
  "platform \<Rightarrow> 'w toolkit \<Rightarrow> (('a \<times> int \<times> 'm) list \<Rightarrow> 'm \<Rightarrow> ('a \<times> int \<times> 'm) list) \<Rightarrow>
   ('w, 'm) operation \<Rightarrow> ('w, 'a, 'm) NativeWindowViews \<Rightarrow>
   error + ('w, 'a, 'm) NativeWindowViews" where
  "step plat tk gen (OpWidget f) s = Inr (s\<lparr>window := f (window s)\<rparr>)"
| "step plat tk gen OpMaximize s = Inr (Maximize tk s)"
| "step plat tk gen OpUnmaximize s = Inr (Unmaximize tk s)"
| "step plat tk gen OpRestore s = Inr (Restore tk s)"
| "step plat tk gen (OpSetSize sz) s = Inr (SetSize tk sz s)"
| "step plat tk gen (OpSetContentSize sz) s = Inr (SetContentSize plat tk sz s)"
| "step plat tk gen (OpSetResizable rsz) s = Inr (SetResizable plat tk rsz s)"
| "step plat tk gen (OpSetSkipTaskbar create_hr init_hr skip) s =
     Inr (SetSkipTaskbar plat tk create_hr init_hr skip s)"
| "step plat tk gen (OpSetMenu env menu_model) s = SetMenu plat tk gen env menu_model s"
| "step plat tk gen (OpUpdateDraggableRegions regions) s =
     Inr (UpdateDraggableRegions regions s)"
| "step plat tk gen (OpOnWidgetActivationChanged same_widget active) s =
     OnWidgetActivationChanged same_widget active s"
| "step plat tk gen OpHandleMouseDown s = HandleMouseDown s"
| "step plat tk gen (OpHandleKeyboardEvent event) s = HandleKeyboardEvent plat tk event s"

inductive reachable ::
  "platform \<Rightarrow> 'w toolkit \<Rightarrow> (('a \<times> int \<times> 'm) list \<Rightarrow> 'm \<Rightarrow> ('a \<times> int \<times> 'm) list) \<Rightarrow>
   ('w, 'a, 'm) NativeWindowViews \<Rightarrow> bool"
  for plat :: platform and tk :: "'w toolkit"
  and gen :: "('a \<times> int \<times> 'm) list \<Rightarrow> 'm \<Rightarrow> ('a \<times> int \<times> 'm) list" where
  reachable_new: "reachable plat tk gen (NativeWindowViews_new plat tk frame opts fm0 tabs0)"
| reachable_step:
    "reachable plat tk gen s \<Longrightarrow> step plat tk gen op s = Inr s' \<Longrightarrow> reachable plat tk gen s'"

text \<open>
  The menu bar is a child of the contents view exactly when it is visible, and a visible
  menu bar exists.
\<close>

definition menu_bar_attached :: "('w, 'a, 'm) NativeWindowViews \<Rightarrow> bool" where
  "menu_bar_attached s = (MenuBarView \<in> set (children s))"

definition menu_bar_consistent :: "('w, 'a, 'm) NativeWindowViews \<Rightarrow> bool" where
  "menu_bar_consistent s =
     (children s = (if menu_bar_visible s then [WebView, MenuBarView] else [WebView]) \<and>
      (menu_bar_visible s \<longrightarrow> menu_bar s \<noteq> None))"

subsection \<open>A toolkit to compute with\<close>

text \<open>
  A small widget for evaluating the functions above on concrete windows: it records what
  it was last told and answers the getters from its fields.
\<close>

record demo_widget =
  w_bounds :: gfx_Rect
  w_restored :: gfx_Rect
  w_minimized :: bool
  w_maximized :: bool
  w_style :: "32 word"
  w_handle :: nat
  w_keys :: nat

definition demo_toolkit :: "demo_widget toolkit" where
  "demo_toolkit =
     \<lparr>Widget_Init = (\<lambda>params. \<lparr>w_bounds = params_bounds params, w_restored = params_bounds params,
                               w_minimized = False, w_maximized = False, w_style = 0,
                               w_handle = 7, w_keys = 0\<rparr>),
      Widget_UpdateWindowIcon = (\<lambda>w. w),
      Widget_CenterWindow = (\<lambda>sz w. w\<lparr>w_bounds := rect_set_size sz (w_bounds w)\<rparr>),
      Widget_Maximize = (\<lambda>w. w\<lparr>w_maximized := True\<rparr>),
      Widget_Restore = (\<lambda>w. w\<lparr>w_maximized := False, w_minimized := False\<rparr>),
      Widget_SetSize = (\<lambda>sz w. w\<lparr>w_bounds := rect_set_size sz (w_bounds w)\<rparr>),
      Widget_SetBounds = (\<lambda>r w. w\<lparr>w_bounds := r\<rparr>),
      Widget_IsMinimized = w_minimized,
      Widget_GetRestoredBounds = w_restored,
      Widget_GetWindowBoundsInScreen = w_bounds,
      GetWindowBoundsForClientBounds =
        (\<lambda>w r. mk_Rect (rect_x r - 4) (rect_y r - 30) (rect_width r + 8) (rect_height r + 34)),
      GetBoundsForClientView =
        (\<lambda>w. mk_Rect 4 30 (rect_width (w_bounds w) - 8) (rect_height (w_bounds w) - 34)),
      ResizingBorderHitTest =
        (\<lambda>w p. if point_x p < 4 \<or> point_y p < 4 then 10 else 0),
      UnhandledKeyboardEvent = (\<lambda>event w. w\<lparr>w_keys := Suc (w_keys w)\<rparr>),
      GetAcceleratedWidget = w_handle,
      GetWindowLong_style = w_style,
      SetWindowLong_style = (\<lambda>st w. w\<lparr>w_style := st\<rparr>)\<rparr>"

subsection \<open>Concrete windows and events\<close>

text \<open>
  Windows built by the constructor over the small toolkit, with accelerators that are
  key codes and menu models that are the lists of the accelerators of their items.
\<close>

definition plain_options :: window_options where
  "plain_options =
     \<lparr>opt_resizable = None, opt_auto_hide_menu_bar = None, opt_width = None,
      opt_height = None, opt_skip_taskbar = None, opt_use_content_size = None\<rparr>"

definition autohide_options :: window_options where
  "autohide_options = plain_options\<lparr>opt_auto_hide_menu_bar := Some True\<rparr>"

definition demo_gen :: "(nat \<times> int \<times> nat list) list \<Rightarrow> nat list \<Rightarrow> (nat \<times> int \<times> nat list) list" where
  "demo_gen table menu_model = table @ map (\<lambda>k. (k, int k, menu_model)) menu_model"

definition demo_window ::
  "platform \<Rightarrow> bool \<Rightarrow> window_options \<Rightarrow> (demo_widget, nat, nat list) NativeWindowViews" where
  "demo_window plat frame opts =
     NativeWindowViews_new plat demo_toolkit frame opts [(65, kHighPriority, OtherTarget 1)] {3, 7}"

definition no_global_menu :: x11_env where
  "no_global_menu = \<lparr>unity_IsRunning = False, desktop_is_unity = False, IsServerStarted = False\<rparr>"

definition alt_down :: NativeWebKeyboardEvent where
  "alt_down = \<lparr>event_type = RawKeyDown, windowsKeyCode = 164, modifiers = AltKey\<rparr>"

definition alt_up :: NativeWebKeyboardEvent where
  "alt_up = \<lparr>event_type = KeyUp, windowsKeyCode = 164, modifiers = 0\<rparr>"

text \<open>
  A window on Windows after the user has minimised it: the system reports the bounds of
  a minimised window far off the screen and keeps the bounds to restore.
\<close>

definition minimized_window :: "(demo_widget, nat, nat list) NativeWindowViews" where
  "minimized_window =
     (demo_window OS_WIN True plain_options)
       \<lparr>window := (window (demo_window OS_WIN True plain_options))
          \<lparr>w_minimized := True, w_bounds := mk_Rect (- 32000) (- 32000) 160 28\<rparr>\<rparr>"

text \<open>A window with a frame after its first \<^verbatim>\<open>SetMenu\<close>, where no global menu bar is used.\<close>

definition menu_window :: "window_options \<Rightarrow> (demo_widget, nat, nat list) NativeWindowViews" where
  "menu_window opts =
     projr (SetMenu USE_X11 demo_toolkit demo_gen no_global_menu [70, 81]
              (demo_window USE_X11 True opts))"

text \<open>The same window with autohide, once a single Alt key has gone down.\<close>

definition alt_held_menu_window :: "(demo_widget, nat, nat list) NativeWindowViews" where
  "alt_held_menu_window =
     projr (HandleKeyboardEvent USE_X11 demo_toolkit alt_down (menu_window autohide_options))"

text \<open>And once that Alt key has gone up again.\<close>

definition shown_menu_window :: "(demo_widget, nat, nat list) NativeWindowViews" where
  "shown_menu_window =
     projr (HandleKeyboardEvent USE_X11 demo_toolkit alt_up alt_held_menu_window)"

text \<open>An autohide window that never got a menu, once a single Alt key has gone down.\<close>

definition alt_held_window :: "bool \<Rightarrow> (demo_widget, nat, nat list) NativeWindowViews" where
  "alt_held_window frame =
     projr (HandleKeyboardEvent USE_X11 demo_toolkit alt_down
              (demo_window USE_X11 frame autohide_options))"

definition key_a_down :: NativeWebKeyboardEvent where
  "key_a_down = \<lparr>event_type = RawKeyDown, windowsKeyCode = 65, modifiers = 0\<rparr>"

definition demo_regions :: "DraggableRegion list" where
  "demo_regions =
     [\<lparr>draggable = True, bounds = mk_Rect 0 0 100 40\<rparr>,
      \<lparr>draggable = False, bounds = mk_Rect 80 0 20 40\<rparr>]"

text \<open>A draggable rectangle at the right end of the coordinate range.\<close>

definition overflow_regions :: "DraggableRegion list" where
  "overflow_regions = [\<lparr>draggable = True, bounds = mk_Rect 2147483600 0 100 10\<rparr>]"

section \<open>Properties\<close>

subsection \<open>Auxiliary facts: regions and accelerators\<close>

lemma int32_in_range: "is_int32 v \<Longrightarrow> int32 v = v"
  by (simp add: is_int32_def int32_def)

lemma SkIRect_pixels_bounds:
  "edges_fit r \<Longrightarrow>
   SkIRect_pixels (rect_x r) (rect_y r) (rect_right r) (rect_bottom r) = rect_pixels r"
  by (simp add: SkIRect_pixels_def rect_pixels_def rect_right_def rect_bottom_def
      edges_fit_def int32_in_range)

lemma apply_draggable_regions_foldl:
  "list_all (\<lambda>d. edges_fit (bounds d)) regions \<Longrightarrow>
   apply_draggable_regions rgn regions =
     foldl (\<lambda>rgn d. if draggable d then rgn \<union> rect_pixels (bounds d)
                     else rgn - rect_pixels (bounds d)) rgn regions"
  by (induction regions arbitrary: rgn) (simp_all add: SkIRect_pixels_bounds)

text \<open>
  Hit testing after the loop: a pixel lies in the region exactly when the last rectangle
  of the list that covers it is draggable.
\<close>

lemma find_last_covering:
  "p \<in> foldl (\<lambda>rgn d. if draggable d then rgn \<union> rect_pixels (bounds d)
                       else rgn - rect_pixels (bounds d)) rgn regions \<longleftrightarrow>
   (case find (\<lambda>d. p \<in> rect_pixels (bounds d)) (rev regions) of
      None \<Rightarrow> p \<in> rgn
    | Some d \<Rightarrow> draggable d)"
  by (induction regions arbitrary: rgn rule: rev_induct) simp_all

lemma register_table_append:
  "register_table table fm =
     fm @ map (\<lambda>entry. (fst entry, kNormalPriority, ThisWindow)) table"
  by (induction table arbitrary: fm) (simp_all add: FocusManager_RegisterAccelerator_def)

lemma RegisterAccelerators_eq:
  "RegisterAccelerators gen menu_model s =
     s\<lparr>accelerator_table := gen [] menu_model,
       focus_manager := filter (\<lambda>r. snd (snd r) \<noteq> ThisWindow) (focus_manager s) @
          map (\<lambda>entry. (fst entry, kNormalPriority, ThisWindow)) (gen [] menu_model)\<rparr>"
  by (simp add: RegisterAccelerators_def Let_def register_table_append
      FocusManager_UnregisterAccelerators_def)

subsection \<open>Auxiliary facts: the menu bar and the child views\<close>

lemma SetMenuBarVisibility_no_bar:
  "menu_bar s = None \<Longrightarrow> SetMenuBarVisibility visible s = Inr s"
  by (simp add: SetMenuBarVisibility_def)

lemma SetMenuBarVisibility_show:
  "menu_bar s \<noteq> None \<Longrightarrow> children s = [WebView] \<Longrightarrow>
   SetMenuBarVisibility True s =
     Inr (s\<lparr>menu_bar_visible := True, children := [WebView, MenuBarView]\<rparr>)"
  by (auto simp: SetMenuBarVisibility_def child_count_def View_AddChildView_def)

lemma SetMenuBarVisibility_hide:
  "menu_bar s \<noteq> None \<Longrightarrow> children s = [WebView, MenuBarView] \<Longrightarrow>
   SetMenuBarVisibility False s =
     Inr (s\<lparr>menu_bar_visible := False, children := [WebView]\<rparr>)"
  by (auto simp: SetMenuBarVisibility_def child_count_def View_RemoveChildView_def)

lemma SetMenuBarVisibility_toggle:
  assumes "menu_bar_consistent s"
  shows "\<exists>s'. SetMenuBarVisibility (\<not> menu_bar_visible s) s = Inr s' \<and>
              menu_bar_consistent s' \<and>
              menu_bar_visible s' = (if menu_bar s = None then menu_bar_visible s
                                     else \<not> menu_bar_visible s) \<and>
              menu_bar_alt_pressed s' = menu_bar_alt_pressed s"
proof (cases "menu_bar s = None")
  case True
  with assms show ?thesis by (simp add: SetMenuBarVisibility_no_bar)
next
  case False
  show ?thesis
  proof (cases "menu_bar_visible s")
    case True
    with False assms show ?thesis
      by (simp add: SetMenuBarVisibility_hide menu_bar_consistent_def)
  next
    case vis: False
    with False assms show ?thesis
      by (simp add: SetMenuBarVisibility_show menu_bar_consistent_def)
  qed
qed

lemma SetMenuBarVisibility_hide_visible:
  assumes "menu_bar_consistent s" and "menu_bar_visible s"
  shows "\<exists>s'. SetMenuBarVisibility False s = Inr s' \<and> menu_bar_consistent s'"
  using SetMenuBarVisibility_toggle [OF assms(1)] assms(2) by auto

lemma consistent_cong:
  "menu_bar s' = menu_bar s \<Longrightarrow> menu_bar_visible s' = menu_bar_visible s \<Longrightarrow>
   children s' = children s \<Longrightarrow> menu_bar_consistent s' = menu_bar_consistent s"
  by (simp add: menu_bar_consistent_def)

lemma consistent_global_update:
  "menu_bar_consistent (s\<lparr>global_menu_bar := g\<rparr>) = menu_bar_consistent s"
  by (rule consistent_cong) simp_all

lemma RegisterAccelerators_fields:
  "menu_bar (RegisterAccelerators gen menu_model s) = menu_bar s"
  "has_frame (RegisterAccelerators gen menu_model s) = has_frame s"
  "global_menu_bar (RegisterAccelerators gen menu_model s) = global_menu_bar s"
  "menu_bar_visible (RegisterAccelerators gen menu_model s) = menu_bar_visible s"
  "children (RegisterAccelerators gen menu_model s) = children s"
  "menu_bar_autohide (RegisterAccelerators gen menu_model s) = menu_bar_autohide s"
  "use_content_size (RegisterAccelerators gen menu_model s) = use_content_size s"
  "menu_bar_alt_pressed (RegisterAccelerators gen menu_model s) = menu_bar_alt_pressed s"
  by (simp_all add: RegisterAccelerators_def Let_def)

lemma RegisterAccelerators_consistent:
  "menu_bar_consistent (RegisterAccelerators gen menu_model s) = menu_bar_consistent s"
  by (rule consistent_cong) (simp_all add: RegisterAccelerators_fields)

lemma SetContentSize_consistent:
  "menu_bar_consistent (SetContentSize plat tk sz s) = menu_bar_consistent s"
  by (rule consistent_cong) (simp_all add: SetContentSize_def SetSize_def Let_def)

lemma widget_ops_consistent:
  "menu_bar_consistent (s\<lparr>window := w\<rparr>) = menu_bar_consistent s"
  "menu_bar_consistent (Maximize tk s) = menu_bar_consistent s"
  "menu_bar_consistent (Unmaximize tk s) = menu_bar_consistent s"
  "menu_bar_consistent (Restore tk s) = menu_bar_consistent s"
  "menu_bar_consistent (SetSize tk sz s) = menu_bar_consistent s"
  by (rule consistent_cong, simp_all add: Maximize_def Unmaximize_def Restore_def SetSize_def)+

lemma SetResizable_consistent:
  "menu_bar_consistent (SetResizable plat tk rsz s) = menu_bar_consistent s"
  by (rule consistent_cong) (simp_all add: SetResizable_def Let_def)

lemma SetSkipTaskbar_consistent:
  "menu_bar_consistent (SetSkipTaskbar plat tk create_hr init_hr skip s) = menu_bar_consistent s"
  by (rule consistent_cong) (simp_all add: SetSkipTaskbar_def split: platform.split)

lemma UpdateDraggableRegions_consistent:
  "menu_bar_consistent (UpdateDraggableRegions regions s) = menu_bar_consistent s"
  by (rule consistent_cong) (simp_all add: UpdateDraggableRegions_def)

lemma create_menu_bar_consistent:
  assumes "menu_bar_consistent s" and "menu_bar s = None"
  shows "\<exists>s'. create_menu_bar plat tk s = Inr s' \<and> menu_bar_consistent s'"
proof -
  from assms have ch: "children s = [WebView]" and nv: "\<not> menu_bar_visible s"
    by (auto simp: menu_bar_consistent_def)
  show ?thesis
  proof (cases "menu_bar_autohide s")
    case True
    with ch nv show ?thesis
      by (simp add: create_menu_bar_def Let_def menu_bar_consistent_def)
  next
    case False
    have "SetMenuBarVisibility True (s\<lparr>menu_bar := Some (MenuBar None)\<rparr>) =
            Inr (s\<lparr>menu_bar := Some (MenuBar None), menu_bar_visible := True,
                   children := [WebView, MenuBarView]\<rparr>)"
      using ch by (simp add: SetMenuBarVisibility_show)
    with False show ?thesis
      by (simp add: create_menu_bar_def Let_def SetContentSize_consistent)
         (simp add: menu_bar_consistent_def)
  qed
qed

lemma SetMenu_consistent:
  assumes "menu_bar_consistent s"
  shows "\<exists>s'. SetMenu plat tk gen env menu_model s = Inr s' \<and> menu_bar_consistent s'"
proof -
  define s2 where
    "s2 = (if plat = USE_X11 \<and> global_menu_bar (RegisterAccelerators gen menu_model s) = None
              \<and> ShouldUseGlobalMenuBar env
           then (RegisterAccelerators gen menu_model s)\<lparr>global_menu_bar :=
                  Some (GlobalMenuBarX11 None)\<rparr>
           else RegisterAccelerators gen menu_model s)"
  have c2: "menu_bar_consistent s2"
    using assms
    by (simp add: s2_def RegisterAccelerators_consistent consistent_global_update)
  have unfolded: "SetMenu plat tk gen env menu_model s =
      (if plat = USE_X11 \<and> global_menu_bar s2 \<noteq> None \<and> IsServerStarted env
       then Inr (s2\<lparr>global_menu_bar := Some (GlobalMenuBarX11 (Some menu_model))\<rparr>)
       else if \<not> has_frame s2 then Inr s2
       else
         (case (if menu_bar s2 = None then create_menu_bar plat tk s2 else Inr s2) of
            Inl e \<Rightarrow> Inl e
          | Inr s3 \<Rightarrow> Inr (s3\<lparr>menu_bar := Some (MenuBar (Some menu_model))\<rparr>)))"
    unfolding SetMenu_def Let_def s2_def by (rule refl)
  have "\<exists>s3. (if menu_bar s2 = None then create_menu_bar plat tk s2 else Inr s2) = Inr s3
              \<and> menu_bar_consistent s3"
    using create_menu_bar_consistent [OF c2] c2 by (cases "menu_bar s2") auto
  then obtain s3 where
    s3: "(if menu_bar s2 = None then create_menu_bar plat tk s2 else Inr s2) = Inr s3"
    and c3: "menu_bar_consistent s3" by blast
  have c3': "menu_bar_consistent (s3\<lparr>menu_bar := Some (MenuBar (Some menu_model))\<rparr>)"
    using c3 by (simp add: menu_bar_consistent_def)
  have c2': "menu_bar_consistent
               (s2\<lparr>global_menu_bar := Some (GlobalMenuBarX11 (Some menu_model))\<rparr>)"
    using c2 by (simp only: consistent_global_update)
  show ?thesis
    unfolding unfolded s3 using c2 c2' c3' by auto
qed

lemma HandleKeyboardEvent_consistent:
  assumes "menu_bar_consistent s"
  shows "\<exists>s'. HandleKeyboardEvent plat tk event s = Inr s' \<and> menu_bar_consistent s'"
proof -
  let ?s0 = "s\<lparr>window := UnhandledKeyboardEvent tk event (window s)\<rparr>"
  let ?s1 = "?s0\<lparr>menu_bar_alt_pressed := False\<rparr>"
  have c0: "menu_bar_consistent ?s0" and c1: "menu_bar_consistent ?s1"
   and c2: "menu_bar_consistent (?s0\<lparr>menu_bar_alt_pressed := True\<rparr>)"
    using assms by (simp_all add: menu_bar_consistent_def)
  from SetMenuBarVisibility_toggle [OF c1]
  have "\<exists>s'. SetMenuBarVisibility (\<not> menu_bar_visible ?s1) ?s1 = Inr s' \<and> menu_bar_consistent s'"
    by blast
  with c0 c1 c2 show ?thesis
    by (simp add: HandleKeyboardEvent_def Let_def)
qed

lemma step_consistent:
  assumes "menu_bar_consistent s"
  shows "\<exists>s'. step plat tk gen op s = Inr s' \<and> menu_bar_consistent s'"
proof (cases op)
  case (OpSetMenu env menu_model)
  with SetMenu_consistent [OF assms] show ?thesis by simp
next
  case (OpOnWidgetActivationChanged same_widget active)
  with assms SetMenuBarVisibility_hide_visible [OF assms] show ?thesis
    by (simp add: OnWidgetActivationChanged_def)
next
  case OpHandleMouseDown
  with assms SetMenuBarVisibility_hide_visible [OF assms] show ?thesis
    by (simp add: HandleMouseDown_def)
next
  case (OpHandleKeyboardEvent event)
  with HandleKeyboardEvent_consistent [OF assms] show ?thesis by simp
next
  case (OpSetContentSize sz)
  with assms show ?thesis by (simp add: SetContentSize_consistent)
qed (use assms in \<open>simp_all add: widget_ops_consistent SetResizable_consistent
      SetSkipTaskbar_consistent UpdateDraggableRegions_consistent\<close>)

lemma new_consistent:
  "menu_bar_consistent (NativeWindowViews_new plat tk frame opts fm0 tabs0)"
  by (simp add: NativeWindowViews_new_def Let_def menu_bar_consistent_def)

lemma reachable_consistent:
  "reachable plat tk gen s \<Longrightarrow> menu_bar_consistent s"
proof (induction rule: reachable.induct)
  case (reachable_new frame opts fm0 tabs0)
  show ?case by (rule new_consistent)
next
  case (reachable_step s op s')
  with step_consistent [of s plat tk gen op] show ?case by simp
qed

subsection \<open>Auxiliary facts: the concrete windows\<close>

lemma demo_window_fields:
  "has_frame (demo_window plat frame opts) = frame"
  "menu_bar (demo_window plat frame opts) = None"
  "global_menu_bar (demo_window plat frame opts) = None"
  "menu_bar_autohide (demo_window plat frame opts) =
     (case opt_auto_hide_menu_bar opts of None \<Rightarrow> False | Some b \<Rightarrow> b)"
  "menu_bar_visible (demo_window plat frame opts) = False"
  "menu_bar_alt_pressed (demo_window plat frame opts) = False"
  "use_content_size (demo_window plat frame opts) =
     (if frame then (case opt_use_content_size opts of None \<Rightarrow> False | Some b \<Rightarrow> b) else False)"
  "resizable (demo_window plat frame opts) = (case opt_resizable opts of None \<Rightarrow> True | Some b \<Rightarrow> b)"
  "accelerator_table (demo_window plat frame opts) = []"
  "draggable_region (demo_window plat frame opts) = None"
  "children (demo_window plat frame opts) = [WebView]"
  "focus_manager (demo_window plat frame opts) = [(65, kHighPriority, OtherTarget 1)]"
  "taskbar (demo_window plat frame opts) = {3, 7}"
  by (simp_all add: demo_window_def NativeWindowViews_new_def Let_def)

lemma options_fields:
  "opt_auto_hide_menu_bar plain_options = None"
  "opt_use_content_size plain_options = None"
  "opt_resizable plain_options = None"
  "opt_auto_hide_menu_bar autohide_options = Some True"
  "opt_use_content_size autohide_options = None"
  "opt_resizable autohide_options = None"
  by (simp_all add: plain_options_def autohide_options_def)

lemma SetMenu_plain:
  "SetMenu USE_X11 demo_toolkit demo_gen no_global_menu [70, 81]
     (demo_window USE_X11 True plain_options) =
   Inr ((RegisterAccelerators demo_gen [70, 81] (demo_window USE_X11 True plain_options))
          \<lparr>menu_bar := Some (MenuBar (Some [70, 81])), menu_bar_visible := True,
           children := [WebView, MenuBarView]\<rparr>)"
  by (simp add: SetMenu_def Let_def RegisterAccelerators_fields demo_window_fields
      no_global_menu_def ShouldUseGlobalMenuBar_def create_menu_bar_def
      SetMenuBarVisibility_def child_count_def View_AddChildView_def options_fields)

lemma SetMenu_autohide:
  "SetMenu USE_X11 demo_toolkit demo_gen no_global_menu [70, 81]
     (demo_window USE_X11 True autohide_options) =
   Inr ((RegisterAccelerators demo_gen [70, 81] (demo_window USE_X11 True autohide_options))
          \<lparr>menu_bar := Some (MenuBar (Some [70, 81]))\<rparr>)"
  by (simp add: SetMenu_def Let_def RegisterAccelerators_fields demo_window_fields
      no_global_menu_def ShouldUseGlobalMenuBar_def create_menu_bar_def options_fields)

lemma menu_window_plain_fields:
  "menu_bar (menu_window plain_options) = Some (MenuBar (Some [70, 81]))"
  "menu_bar_visible (menu_window plain_options)"
  "children (menu_window plain_options) = [WebView, MenuBarView]"
  "\<not> menu_bar_autohide (menu_window plain_options)"
  by (simp_all add: menu_window_def SetMenu_plain RegisterAccelerators_fields demo_window_fields
      options_fields)

lemma menu_window_autohide_fields:
  "menu_bar (menu_window autohide_options) = Some (MenuBar (Some [70, 81]))"
  "\<not> menu_bar_visible (menu_window autohide_options)"
  "children (menu_window autohide_options) = [WebView]"
  "menu_bar_autohide (menu_window autohide_options)"
  "\<not> menu_bar_alt_pressed (menu_window autohide_options)"
  by (simp_all add: menu_window_def SetMenu_autohide RegisterAccelerators_fields demo_window_fields
      options_fields)

lemma alt_events:
  "event_type alt_down = RawKeyDown" "IsAltKey USE_X11 alt_down" "IsAltModifier alt_down"
  "modifiers alt_down = AltKey"
  "event_type alt_up = KeyUp" "IsAltKey USE_X11 alt_up" "modifiers alt_up = 0"
  by (simp_all add: alt_down_def alt_up_def IsAltKey_def IsAltModifier_def)

lemma alt_held_menu_window_eq:
  "alt_held_menu_window =
     (menu_window autohide_options)
       \<lparr>window := UnhandledKeyboardEvent demo_toolkit alt_down (window (menu_window autohide_options)),
        menu_bar_alt_pressed := True\<rparr>"
  by (simp add: alt_held_menu_window_def HandleKeyboardEvent_def Let_def alt_events
      menu_window_autohide_fields)

lemma alt_held_menu_window_fields:
  "menu_bar alt_held_menu_window = Some (MenuBar (Some [70, 81]))"
  "\<not> menu_bar_visible alt_held_menu_window"
  "children alt_held_menu_window = [WebView]"
  "menu_bar_autohide alt_held_menu_window"
  "menu_bar_alt_pressed alt_held_menu_window"
  by (simp_all add: alt_held_menu_window_eq menu_window_autohide_fields)

lemma reachable_menu_window_plain:
  "reachable USE_X11 demo_toolkit demo_gen (menu_window plain_options)"
proof -
  have "reachable USE_X11 demo_toolkit demo_gen (demo_window USE_X11 True plain_options)"
    unfolding demo_window_def by (rule reachable_new)
  moreover have "step USE_X11 demo_toolkit demo_gen (OpSetMenu no_global_menu [70, 81])
                   (demo_window USE_X11 True plain_options) = Inr (menu_window plain_options)"
    by (simp add: menu_window_def SetMenu_plain)
  ultimately show ?thesis by (rule reachable_step)
qed

lemma FAILED_values: "\<not> FAILED 0" "FAILED 0x80004005"
  by (simp_all add: FAILED_def)

lemma demo_regions_spec:
  "(5, 5) \<in> draggable_region_spec demo_regions" "(90, 5) \<notin> draggable_region_spec demo_regions"
  by (simp_all add: draggable_region_spec_def demo_regions_def rect_pixels_def mk_Rect_def
      rect_x_def rect_y_def rect_width_def rect_height_def)

lemma minimized_window_vals:
  "IsMinimized demo_toolkit minimized_window"
  "Widget_GetRestoredBounds demo_toolkit (window minimized_window) = mk_Rect 0 0 800 600"
  "Widget_GetWindowBoundsInScreen demo_toolkit (window minimized_window) = mk_Rect (- 32000) (- 32000) 160 28"
  by (simp_all add: minimized_window_def IsMinimized_def demo_toolkit_def demo_window_def
    NativeWindowViews_new_def Let_def plain_options_def rect_set_size_def mk_Rect_def)

lemma demo_regions_fit: "list_all (\<lambda>d. edges_fit (bounds d)) demo_regions"
  by (simp add: demo_regions_def edges_fit_def is_int32_def mk_Rect_def
      rect_x_def rect_y_def rect_width_def rect_height_def)

lemma frameless_regions_fields:
  "draggable_region (UpdateDraggableRegions demo_regions (demo_window USE_X11 False plain_options))
     = Some (draggable_region_spec demo_regions)"
  "has_frame (UpdateDraggableRegions demo_regions (demo_window USE_X11 False plain_options)) = False"
  "resizable (UpdateDraggableRegions demo_regions (demo_window USE_X11 False plain_options)) = True"
  by (simp_all add: UpdateDraggableRegions_def demo_window_fields options_fields
      draggable_region_spec_def SkRegion_new_def
      apply_draggable_regions_foldl [OF demo_regions_fit])

lemma demo_regions_outside: "(2, 60) \<notin> draggable_region_spec demo_regions"
  by (simp add: draggable_region_spec_def demo_regions_def rect_pixels_def mk_Rect_def
      rect_x_def rect_y_def rect_width_def rect_height_def)

lemma demo_hit_test:
  "ResizingBorderHitTest demo_toolkit w \<lparr>point_x = 90, point_y = 5\<rparr> = 0"
  "ResizingBorderHitTest demo_toolkit w \<lparr>point_x = 2, point_y = 60\<rparr> = 10"
  by (simp_all add: demo_toolkit_def)

lemma menu_window_plain_registry:
  "focus_manager (menu_window plain_options) =
     [(65, kHighPriority, OtherTarget 1), (70, kNormalPriority, ThisWindow),
      (81, kNormalPriority, ThisWindow)]"
  by (simp add: menu_window_def SetMenu_plain RegisterAccelerators_eq demo_window_fields
      demo_gen_def)

lemma demo_window_handle:
  "GetAcceleratedWidget demo_toolkit (window (demo_window plat frame opts)) = 7"
  by (simp add: demo_window_def NativeWindowViews_new_def Let_def demo_toolkit_def)

lemma SetSkipTaskbar_window:
  "window (SetSkipTaskbar plat tk create_hr init_hr skip s) = window s"
  by (simp add: SetSkipTaskbar_def split: platform.split)

lemma key_a_events:
  "event_type key_a_down = RawKeyDown" "\<not> IsAltKey USE_X11 key_a_down"
  "event_type key_a_down \<noteq> KeyUp"
  by (simp_all add: key_a_down_def IsAltKey_def)

lemma alt_held_window_eq:
  "HandleKeyboardEvent USE_X11 demo_toolkit alt_down (demo_window USE_X11 frame autohide_options) =
     Inr ((demo_window USE_X11 frame autohide_options)
            \<lparr>window := UnhandledKeyboardEvent demo_toolkit alt_down
                         (window (demo_window USE_X11 frame autohide_options)),
             menu_bar_alt_pressed := True\<rparr>)"
  by (simp add: HandleKeyboardEvent_def Let_def alt_events demo_window_fields options_fields)

lemma alt_held_window_fields:
  "menu_bar (alt_held_window frame) = None"
  "\<not> menu_bar_visible (alt_held_window frame)"
  "menu_bar_autohide (alt_held_window frame)"
  "menu_bar_alt_pressed (alt_held_window frame)"
  by (simp_all add: alt_held_window_def alt_held_window_eq demo_window_fields options_fields)

lemma shown_menu_window_eq:
  "HandleKeyboardEvent USE_X11 demo_toolkit alt_up alt_held_menu_window =
     Inr (alt_held_menu_window
            \<lparr>window := UnhandledKeyboardEvent demo_toolkit alt_up (window alt_held_menu_window),
             menu_bar_alt_pressed := False, menu_bar_visible := True,
             children := [WebView, MenuBarView]\<rparr>)"
  by (simp add: HandleKeyboardEvent_def Let_def alt_events alt_held_menu_window_fields
      SetMenuBarVisibility_def child_count_def View_AddChildView_def)

lemma shown_menu_window_fields:
  "menu_bar shown_menu_window = Some (MenuBar (Some [70, 81]))"
  "menu_bar_visible shown_menu_window"
  "children shown_menu_window = [WebView, MenuBarView]"
  "menu_bar_autohide shown_menu_window"
  by (simp_all add: shown_menu_window_def shown_menu_window_eq alt_held_menu_window_fields)

lemma alt_held_menu_window_step:
  "HandleKeyboardEvent USE_X11 demo_toolkit alt_down (menu_window autohide_options) =
     Inr alt_held_menu_window"
  by (simp add: alt_held_menu_window_eq HandleKeyboardEvent_def Let_def alt_events
      menu_window_autohide_fields)

lemma reachable_shown_menu_window:
  "reachable USE_X11 demo_toolkit demo_gen shown_menu_window"
proof -
  have "reachable USE_X11 demo_toolkit demo_gen (demo_window USE_X11 True autohide_options)"
    unfolding demo_window_def by (rule reachable_new)
  moreover have "step USE_X11 demo_toolkit demo_gen (OpSetMenu no_global_menu [70, 81])
                   (demo_window USE_X11 True autohide_options) = Inr (menu_window autohide_options)"
    by (simp add: menu_window_def SetMenu_autohide)
  ultimately have "reachable USE_X11 demo_toolkit demo_gen (menu_window autohide_options)"
    by (rule reachable_step)
  moreover have "step USE_X11 demo_toolkit demo_gen (OpHandleKeyboardEvent alt_down)
                   (menu_window autohide_options) = Inr alt_held_menu_window"
    by (simp add: alt_held_menu_window_step)
  ultimately have "reachable USE_X11 demo_toolkit demo_gen alt_held_menu_window"
    by (rule reachable_step)
  moreover have "step USE_X11 demo_toolkit demo_gen (OpHandleKeyboardEvent alt_up)
                   alt_held_menu_window = Inr shown_menu_window"
    by (simp add: shown_menu_window_def shown_menu_window_eq)
  ultimately show ?thesis by (rule reachable_step)
qed

lemma menu_window_plain_alt: "\<not> menu_bar_alt_pressed (menu_window plain_options)"
  by (simp add: menu_window_def SetMenu_plain RegisterAccelerators_fields demo_window_fields)

subsection \<open>The claims\<close>

text \<open>
  Claim C1, as the code has it. With autohide enabled, \<^verbatim>\<open>HandleKeyboardEvent\<close> returns
  and: a RawKeyDown of an Alt key whose modifiers are the Alt modifier alone, or with
  IsLeft, or with IsRight, sets the alt-pressed flag and keeps the visibility; a KeyUp of
  an Alt key with no modifiers while the flag is set clears the flag and, when a menu bar
  exists and the contents view has the number of children \<^verbatim>\<open>SetMenuBarVisibility\<close>
  asserts, toggles the visibility, whereas without a menu bar the visibility stays; every
  other key event clears the flag and keeps the visibility. With autohide disabled the
  flag and the visibility stay as they are.
\<close>

theorem HandleKeyboardEvent_alt:
  "(menu_bar_autohide s \<and> event_type e = RawKeyDown \<and> IsAltKey plat e \<and>
    (modifiers e = AltKey \<or> modifiers e = or AltKey IsLeft \<or> modifiers e = or AltKey IsRight) \<longrightarrow>
      (\<exists>s'. HandleKeyboardEvent plat tk e s = Inr s' \<and> menu_bar_alt_pressed s' \<and>
            menu_bar_visible s' = menu_bar_visible s)) \<and>
   (menu_bar_autohide s \<and> event_type e = KeyUp \<and> IsAltKey plat e \<and> modifiers e = 0 \<and>
    menu_bar_alt_pressed s \<and> menu_bar s \<noteq> None \<and>
    child_count s = (if menu_bar_visible s then 2 else 1) \<longrightarrow>
      (\<exists>s'. HandleKeyboardEvent plat tk e s = Inr s' \<and> \<not> menu_bar_alt_pressed s' \<and>
            menu_bar_visible s' = (\<not> menu_bar_visible s))) \<and>
   (menu_bar_autohide s \<and> event_type e = KeyUp \<and> IsAltKey plat e \<and> modifiers e = 0 \<and>
    menu_bar_alt_pressed s \<and> menu_bar s = None \<longrightarrow>
      (\<exists>s'. HandleKeyboardEvent plat tk e s = Inr s' \<and> \<not> menu_bar_alt_pressed s' \<and>
            menu_bar_visible s' = menu_bar_visible s)) \<and>
   (menu_bar_autohide s \<and>
    \<not> (event_type e = RawKeyDown \<and> IsAltKey plat e \<and>
       (modifiers e = AltKey \<or> modifiers e = or AltKey IsLeft \<or> modifiers e = or AltKey IsRight)) \<and>
    \<not> (event_type e = KeyUp \<and> IsAltKey plat e \<and> modifiers e = 0 \<and> menu_bar_alt_pressed s) \<longrightarrow>
      (\<exists>s'. HandleKeyboardEvent plat tk e s = Inr s' \<and> \<not> menu_bar_alt_pressed s' \<and>
            menu_bar_visible s' = menu_bar_visible s)) \<and>
   (\<not> menu_bar_autohide s \<longrightarrow>
      (\<exists>s'. HandleKeyboardEvent plat tk e s = Inr s' \<and>
            menu_bar_alt_pressed s' = menu_bar_alt_pressed s \<and>
            menu_bar_visible s' = menu_bar_visible s))"
proof (intro conjI impI)
  assume "menu_bar_autohide s \<and> event_type e = RawKeyDown \<and> IsAltKey plat e \<and>
    (modifiers e = AltKey \<or> modifiers e = or AltKey IsLeft \<or> modifiers e = or AltKey IsRight)"
  then show "\<exists>s'. HandleKeyboardEvent plat tk e s = Inr s' \<and> menu_bar_alt_pressed s' \<and>
            menu_bar_visible s' = menu_bar_visible s"
    by (simp add: HandleKeyboardEvent_def Let_def IsAltModifier_def)
next
  assume a: "menu_bar_autohide s \<and> event_type e = KeyUp \<and> IsAltKey plat e \<and> modifiers e = 0 \<and>
    menu_bar_alt_pressed s \<and> menu_bar s \<noteq> None \<and>
    child_count s = (if menu_bar_visible s then 2 else 1)"
  then show "\<exists>s'. HandleKeyboardEvent plat tk e s = Inr s' \<and> \<not> menu_bar_alt_pressed s' \<and>
            menu_bar_visible s' = (\<not> menu_bar_visible s)"
    by (cases "menu_bar_visible s")
       (auto simp: HandleKeyboardEvent_def Let_def SetMenuBarVisibility_def child_count_def)
next
  assume "menu_bar_autohide s \<and> event_type e = KeyUp \<and> IsAltKey plat e \<and> modifiers e = 0 \<and>
    menu_bar_alt_pressed s \<and> menu_bar s = None"
  then show "\<exists>s'. HandleKeyboardEvent plat tk e s = Inr s' \<and> \<not> menu_bar_alt_pressed s' \<and>
            menu_bar_visible s' = menu_bar_visible s"
    by (simp add: HandleKeyboardEvent_def Let_def SetMenuBarVisibility_no_bar)
next
  assume "menu_bar_autohide s \<and>
    \<not> (event_type e = RawKeyDown \<and> IsAltKey plat e \<and>
       (modifiers e = AltKey \<or> modifiers e = or AltKey IsLeft \<or> modifiers e = or AltKey IsRight)) \<and>
    \<not> (event_type e = KeyUp \<and> IsAltKey plat e \<and> modifiers e = 0 \<and> menu_bar_alt_pressed s)"
  then show "\<exists>s'. HandleKeyboardEvent plat tk e s = Inr s' \<and> \<not> menu_bar_alt_pressed s' \<and>
            menu_bar_visible s' = menu_bar_visible s"
    by (simp add: HandleKeyboardEvent_def Let_def IsAltModifier_def) blast
next
  assume "\<not> menu_bar_autohide s"
  then show "\<exists>s'. HandleKeyboardEvent plat tk e s = Inr s' \<and>
            menu_bar_alt_pressed s' = menu_bar_alt_pressed s \<and>
            menu_bar_visible s' = menu_bar_visible s"
    by (simp add: HandleKeyboardEvent_def Let_def)
qed

text \<open>
  The theorem at concrete windows: Alt going down on an autohide window with a menu bar;
  Alt going up after that, which shows the menu bar; Alt going up on an autohide window
  without a menu bar; another key; and Alt going down with autohide off.
\<close>

theorem HandleKeyboardEvent_alt_witness:
  "menu_bar_alt_pressed
     (projr (HandleKeyboardEvent USE_X11 demo_toolkit alt_down (menu_window autohide_options))) \<and>
   \<not> menu_bar_visible
       (projr (HandleKeyboardEvent USE_X11 demo_toolkit alt_down (menu_window autohide_options))) \<and>
   menu_bar alt_held_menu_window \<noteq> None \<and> child_count alt_held_menu_window = 1 \<and>
   \<not> menu_bar_visible alt_held_menu_window \<and>
   \<not> isl (HandleKeyboardEvent USE_X11 demo_toolkit alt_up alt_held_menu_window) \<and>
   menu_bar_visible (projr (HandleKeyboardEvent USE_X11 demo_toolkit alt_up alt_held_menu_window)) \<and>
   \<not> menu_bar_alt_pressed
       (projr (HandleKeyboardEvent USE_X11 demo_toolkit alt_up alt_held_menu_window)) \<and>
   menu_bar (alt_held_window False) = None \<and>
   \<not> menu_bar_visible
       (projr (HandleKeyboardEvent USE_X11 demo_toolkit alt_up (alt_held_window False))) \<and>
   \<not> menu_bar_alt_pressed
       (projr (HandleKeyboardEvent USE_X11 demo_toolkit alt_up (alt_held_window False))) \<and>
   \<not> menu_bar_visible
       (projr (HandleKeyboardEvent USE_X11 demo_toolkit key_a_down alt_held_menu_window)) \<and>
   \<not> menu_bar_alt_pressed
       (projr (HandleKeyboardEvent USE_X11 demo_toolkit key_a_down alt_held_menu_window)) \<and>
   \<not> menu_bar_autohide (menu_window plain_options) \<and>
   menu_bar_visible
     (projr (HandleKeyboardEvent USE_X11 demo_toolkit alt_down (menu_window plain_options))) \<and>
   \<not> menu_bar_alt_pressed
       (projr (HandleKeyboardEvent USE_X11 demo_toolkit alt_down (menu_window plain_options)))"
  using HandleKeyboardEvent_alt
      [where s = "menu_window autohide_options" and e = alt_down and plat = USE_X11
         and tk = demo_toolkit]
    HandleKeyboardEvent_alt
      [where s = alt_held_menu_window and e = alt_up and plat = USE_X11 and tk = demo_toolkit]
    HandleKeyboardEvent_alt
      [where s = "alt_held_window False" and e = alt_up and plat = USE_X11 and tk = demo_toolkit]
    HandleKeyboardEvent_alt
      [where s = alt_held_menu_window and e = key_a_down and plat = USE_X11 and tk = demo_toolkit]
    HandleKeyboardEvent_alt
      [where s = "menu_window plain_options" and e = alt_down and plat = USE_X11
         and tk = demo_toolkit]
  by (auto simp: alt_held_menu_window_fields alt_events child_count_def key_a_events
      alt_held_window_fields menu_window_autohide_fields menu_window_plain_fields
      menu_window_plain_alt)

text \<open>
  Claim C1 as stated fails on a window that has no menu bar (none was set, or the window
  has no frame): after Alt down and Alt up on a new autohide window the visibility is
  what it was, not toggled.
\<close>

theorem alt_release_without_menu_bar:
  "menu_bar_autohide (demo_window USE_X11 True autohide_options) \<and>
   \<not> isl (HandleKeyboardEvent USE_X11 demo_toolkit alt_down
            (demo_window USE_X11 True autohide_options)) \<and>
   menu_bar_alt_pressed
     (projr (HandleKeyboardEvent USE_X11 demo_toolkit alt_down
               (demo_window USE_X11 True autohide_options))) \<and>
   event_type alt_up = KeyUp \<and> IsAltKey USE_X11 alt_up \<and> modifiers alt_up = 0 \<and>
   \<not> isl (HandleKeyboardEvent USE_X11 demo_toolkit alt_up
            (projr (HandleKeyboardEvent USE_X11 demo_toolkit alt_down
                      (demo_window USE_X11 True autohide_options)))) \<and>
   menu_bar_visible
     (projr (HandleKeyboardEvent USE_X11 demo_toolkit alt_up
               (projr (HandleKeyboardEvent USE_X11 demo_toolkit alt_down
                         (demo_window USE_X11 True autohide_options))))) =
   menu_bar_visible
     (projr (HandleKeyboardEvent USE_X11 demo_toolkit alt_down
               (demo_window USE_X11 True autohide_options)))"
  by (simp add: alt_held_window_eq alt_events demo_window_fields HandleKeyboardEvent_def Let_def
      SetMenuBarVisibility_no_bar options_fields)

text \<open>
  Claim C2, as the code has it. For a list of regions whose rectangles have a right and
  a bottom edge (\<open>x + width\<close>, \<open>y + height\<close>) in the range of a 32-bit \<^verbatim>\<open>int\<close>: on a
  window without a frame \<^verbatim>\<open>UpdateDraggableRegions\<close> stores the region obtained from the
  empty region by going through the list in order, uniting with each draggable rectangle
  and subtracting each non-draggable one, and changes nothing else. On a window with a
  frame it changes nothing, for every list.
\<close>

theorem UpdateDraggableRegions_spec:
  "(\<not> has_frame s \<and> list_all (\<lambda>d. edges_fit (bounds d)) regions \<longrightarrow>
      UpdateDraggableRegions regions s =
        s\<lparr>draggable_region := Some (draggable_region_spec regions)\<rparr>) \<and>
   (has_frame s \<longrightarrow> UpdateDraggableRegions regions s = s)"
  by (simp add: UpdateDraggableRegions_def draggable_region_spec_def SkRegion_new_def
      apply_draggable_regions_foldl)

theorem UpdateDraggableRegions_spec_witness:
  "\<not> has_frame (demo_window USE_X11 False plain_options) \<and>
   list_all (\<lambda>d. edges_fit (bounds d)) demo_regions \<and>
   UpdateDraggableRegions demo_regions (demo_window USE_X11 False plain_options) =
     (demo_window USE_X11 False plain_options)
       \<lparr>draggable_region := Some (draggable_region_spec demo_regions)\<rparr> \<and>
   (5, 5) \<in> draggable_region_spec demo_regions \<and>
   (90, 5) \<notin> draggable_region_spec demo_regions \<and>
   has_frame (demo_window USE_X11 True plain_options) \<and>
   UpdateDraggableRegions demo_regions (demo_window USE_X11 True plain_options) =
     demo_window USE_X11 True plain_options"
  using UpdateDraggableRegions_spec
      [where s = "demo_window USE_X11 False plain_options" and regions = demo_regions]
    UpdateDraggableRegions_spec
      [where s = "demo_window USE_X11 True plain_options" and regions = demo_regions]
  by (simp add: demo_window_fields demo_regions_spec demo_regions_fit)

text \<open>
  Claim C2 as stated, for every list, fails for a rectangle whose right edge is beyond
  the range of a 32-bit \<^verbatim>\<open>int\<close>: \<^verbatim>\<open>right()\<close> wraps to a value left of \<^verbatim>\<open>x()\<close>, the
  rectangle handed to \<^verbatim>\<open>SkRegion::op\<close> is empty, and the region stored is empty, whereas
  the union with the rectangle holds the pixel (2147483620, 5).
\<close>

theorem draggable_region_overflow:
  "\<not> has_frame (demo_window USE_X11 False plain_options) \<and>
   rect_x (bounds (hd overflow_regions)) = 2147483600 \<and>
   rect_width (bounds (hd overflow_regions)) = 100 \<and>
   rect_right (bounds (hd overflow_regions)) = - 2147483596 \<and>
   draggable_region
     (UpdateDraggableRegions overflow_regions (demo_window USE_X11 False plain_options)) =
     Some {} \<and>
   (2147483620, 5) \<in> draggable_region_spec overflow_regions \<and>
   UpdateDraggableRegions overflow_regions (demo_window USE_X11 False plain_options) \<noteq>
     (demo_window USE_X11 False plain_options)
       \<lparr>draggable_region := Some (draggable_region_spec overflow_regions)\<rparr>"
proof -
  have right: "rect_right (bounds (hd overflow_regions)) = - 2147483596"
    by (simp add: overflow_regions_def rect_right_def int32_def mk_Rect_def rect_x_def
        rect_width_def)
  have left: "rect_x (bounds (hd overflow_regions)) = 2147483600"
    by (simp add: overflow_regions_def mk_Rect_def rect_x_def)
  have "SkIRect_pixels (rect_x (bounds (hd overflow_regions)))
          (rect_y (bounds (hd overflow_regions))) (rect_right (bounds (hd overflow_regions)))
          (rect_bottom (bounds (hd overflow_regions))) = {}"
    unfolding left right by (auto simp: SkIRect_pixels_def)
  then have stored: "draggable_region
      (UpdateDraggableRegions overflow_regions (demo_window USE_X11 False plain_options)) =
      Some {}"
    by (simp add: UpdateDraggableRegions_def demo_window_fields SkRegion_new_def
        overflow_regions_def)
  have inside: "(2147483620, 5) \<in> draggable_region_spec overflow_regions"
    by (simp add: draggable_region_spec_def overflow_regions_def rect_pixels_def mk_Rect_def
        rect_x_def rect_y_def rect_width_def rect_height_def)
  have differ: "UpdateDraggableRegions overflow_regions (demo_window USE_X11 False plain_options)
      \<noteq> (demo_window USE_X11 False plain_options)
           \<lparr>draggable_region := Some (draggable_region_spec overflow_regions)\<rparr>"
  proof
    assume "UpdateDraggableRegions overflow_regions (demo_window USE_X11 False plain_options) =
      (demo_window USE_X11 False plain_options)
        \<lparr>draggable_region := Some (draggable_region_spec overflow_regions)\<rparr>"
    then have "draggable_region
        (UpdateDraggableRegions overflow_regions (demo_window USE_X11 False plain_options)) =
        Some (draggable_region_spec overflow_regions)"
      by simp
    with stored inside show False by simp
  qed
  have "rect_width (bounds (hd overflow_regions)) = 100"
    by (simp add: overflow_regions_def mk_Rect_def rect_width_def)
  with left right stored inside differ show ?thesis
    by (simp add: demo_window_fields)
qed

text \<open>
  Claim C3. \<^verbatim>\<open>ShouldDescendIntoChildForEventHandling\<close> is false when a draggable region
  is stored and contains the point; otherwise, on a resizable window without a frame, it
  is true exactly when the resizing-border hit test of the frame view answers
  \<^verbatim>\<open>HTNOWHERE\<close>; otherwise it is true.
\<close>

theorem ShouldDescend_cases:
  "((\<exists>rgn. draggable_region s = Some rgn \<and>
            SkRegion_contains rgn (point_x location) (point_y location)) \<longrightarrow>
      \<not> ShouldDescendIntoChildForEventHandling tk location s) \<and>
   (\<not> (\<exists>rgn. draggable_region s = Some rgn \<and>
            SkRegion_contains rgn (point_x location) (point_y location)) \<and>
    \<not> has_frame s \<and> resizable s \<longrightarrow>
      ShouldDescendIntoChildForEventHandling tk location s =
        (ResizingBorderHitTest tk (window s) location = HTNOWHERE)) \<and>
   (\<not> (\<exists>rgn. draggable_region s = Some rgn \<and>
            SkRegion_contains rgn (point_x location) (point_y location)) \<and>
    \<not> (\<not> has_frame s \<and> resizable s) \<longrightarrow>
      ShouldDescendIntoChildForEventHandling tk location s)"
  by (cases "draggable_region s")
     (auto simp: ShouldDescendIntoChildForEventHandling_def CanResize_def)

theorem ShouldDescend_cases_witness:
  "draggable_region (UpdateDraggableRegions demo_regions (demo_window USE_X11 False plain_options))
     = Some (draggable_region_spec demo_regions) \<and>
   \<not> ShouldDescendIntoChildForEventHandling demo_toolkit \<lparr>point_x = 5, point_y = 5\<rparr>
       (UpdateDraggableRegions demo_regions (demo_window USE_X11 False plain_options)) \<and>
   ShouldDescendIntoChildForEventHandling demo_toolkit \<lparr>point_x = 90, point_y = 5\<rparr>
     (UpdateDraggableRegions demo_regions (demo_window USE_X11 False plain_options)) \<and>
   \<not> ShouldDescendIntoChildForEventHandling demo_toolkit \<lparr>point_x = 2, point_y = 60\<rparr>
       (UpdateDraggableRegions demo_regions (demo_window USE_X11 False plain_options)) \<and>
   ShouldDescendIntoChildForEventHandling demo_toolkit \<lparr>point_x = 2, point_y = 60\<rparr>
     (demo_window USE_X11 True plain_options)"
  using ShouldDescend_cases
      [where s = "UpdateDraggableRegions demo_regions (demo_window USE_X11 False plain_options)"
         and location = "\<lparr>point_x = 5, point_y = 5\<rparr>" and tk = demo_toolkit]
    ShouldDescend_cases
      [where s = "UpdateDraggableRegions demo_regions (demo_window USE_X11 False plain_options)"
         and location = "\<lparr>point_x = 90, point_y = 5\<rparr>" and tk = demo_toolkit]
    ShouldDescend_cases
      [where s = "UpdateDraggableRegions demo_regions (demo_window USE_X11 False plain_options)"
         and location = "\<lparr>point_x = 2, point_y = 60\<rparr>" and tk = demo_toolkit]
    ShouldDescend_cases
      [where s = "demo_window USE_X11 True plain_options"
         and location = "\<lparr>point_x = 2, point_y = 60\<rparr>" and tk = demo_toolkit]
  by (simp add: frameless_regions_fields demo_window_fields demo_regions_spec
      SkRegion_contains_def demo_hit_test HTNOWHERE_def)

text \<open>
  Claim C4. After \<^verbatim>\<open>RegisterAccelerators\<close> the accelerator table is the one generated
  from the empty table and the menu model; the accelerators registered for the window
  with the focus manager are exactly the keys of that table, whatever was registered
  before, each with normal priority; the entries of other targets are as they were.
\<close>

theorem RegisterAccelerators_exact:
  "accelerator_table (RegisterAccelerators gen menu_model s) = gen [] menu_model \<and>
   {accel. \<exists>prio. (accel, prio, ThisWindow) \<in> set (focus_manager (RegisterAccelerators gen menu_model s))}
     = fst ` set (gen [] menu_model) \<and>
   (\<forall>accel prio. (accel, prio, ThisWindow) \<in> set (focus_manager (RegisterAccelerators gen menu_model s))
      \<longrightarrow> prio = kNormalPriority) \<and>
   filter (\<lambda>r. snd (snd r) \<noteq> ThisWindow) (focus_manager (RegisterAccelerators gen menu_model s))
     = filter (\<lambda>r. snd (snd r) \<noteq> ThisWindow) (focus_manager s)"
  unfolding RegisterAccelerators_eq by (auto simp: image_iff)

theorem RegisterAccelerators_exact_witness:
  "{accel. \<exists>prio. (accel, prio, ThisWindow) \<in> set (focus_manager (menu_window plain_options))}
     = {70, 81} \<and>
   accelerator_table (RegisterAccelerators demo_gen [90] (menu_window plain_options))
     = [(90, 90, [90])] \<and>
   {accel. \<exists>prio. (accel, prio, ThisWindow) \<in>
       set (focus_manager (RegisterAccelerators demo_gen [90] (menu_window plain_options)))}
     = {90} \<and>
   (90, kNormalPriority, ThisWindow) \<in>
     set (focus_manager (RegisterAccelerators demo_gen [90] (menu_window plain_options))) \<and>
   (65, kHighPriority, OtherTarget 1) \<in>
     set (focus_manager (RegisterAccelerators demo_gen [90] (menu_window plain_options)))"
proof -
  let ?s = "RegisterAccelerators demo_gen [90] (menu_window plain_options)"
  note new = RegisterAccelerators_exact
      [where gen = demo_gen and menu_model = "[90]" and s = "menu_window plain_options"]
  have before: "{accel. \<exists>prio. (accel, prio, ThisWindow) \<in>
                   set (focus_manager (menu_window plain_options))} = {70, 81}"
    by (auto simp: menu_window_plain_registry)
  have table: "accelerator_table ?s = [(90, 90, [90])]"
    using new by (simp add: demo_gen_def)
  have keys: "{accel. \<exists>prio. (accel, prio, ThisWindow) \<in> set (focus_manager ?s)} = {90}"
    using new by (simp add: demo_gen_def)
  then have "\<exists>prio. (90, prio, ThisWindow) \<in> set (focus_manager ?s)"
    by blast
  with new have mine: "(90, kNormalPriority, ThisWindow) \<in> set (focus_manager ?s)"
    by blast
  have "(65, kHighPriority, OtherTarget 1) \<in>
          set (filter (\<lambda>r. snd (snd r) \<noteq> ThisWindow) (focus_manager ?s))"
    using new by (simp add: menu_window_plain_registry)
  then have other: "(65, kHighPriority, OtherTarget 1) \<in> set (focus_manager ?s)"
    by simp
  from before table keys mine other show ?thesis
    by (intro conjI)
qed

text \<open>
  Claim C5, as the code has it. On X11, and on Windows while the window is not
  minimised, \<^verbatim>\<open>GetSize()\<close> and \<^verbatim>\<open>GetPosition()\<close> return the size and the origin of
  \<^verbatim>\<open>window_->GetWindowBoundsInScreen()\<close>; on Windows while the window is minimised they
  return the size and the origin of \<^verbatim>\<open>window_->GetRestoredBounds()\<close>.
\<close>

theorem geometry_getters:
  "(plat = USE_X11 \<or> \<not> IsMinimized tk s \<longrightarrow>
      GetSize plat tk s = rect_size (Widget_GetWindowBoundsInScreen tk (window s)) \<and>
      GetPosition plat tk s = rect_origin (Widget_GetWindowBoundsInScreen tk (window s))) \<and>
   (plat = OS_WIN \<and> IsMinimized tk s \<longrightarrow>
      GetSize plat tk s = rect_size (Widget_GetRestoredBounds tk (window s)) \<and>
      GetPosition plat tk s = rect_origin (Widget_GetRestoredBounds tk (window s)))"
  by (auto simp: GetSize_def GetPosition_def)

theorem geometry_getters_witness:
  "IsMinimized demo_toolkit minimized_window \<and>
   GetSize OS_WIN demo_toolkit minimized_window = \<lparr>size_width = 800, size_height = 600\<rparr> \<and>
   GetPosition OS_WIN demo_toolkit minimized_window = \<lparr>point_x = 0, point_y = 0\<rparr> \<and>
   GetSize USE_X11 demo_toolkit minimized_window = \<lparr>size_width = 160, size_height = 28\<rparr> \<and>
   GetPosition USE_X11 demo_toolkit minimized_window = \<lparr>point_x = - 32000, point_y = - 32000\<rparr>"
  using geometry_getters [where plat = OS_WIN and tk = demo_toolkit and s = minimized_window]
    geometry_getters [where plat = USE_X11 and tk = demo_toolkit and s = minimized_window]
  by (simp add: minimized_window_vals mk_Rect_def)

text \<open>
  Claim C5 as stated fails on Windows for a minimised window: the getters answer from the
  restored bounds, which are not the bounds in the screen.
\<close>

theorem minimized_getters_differ:
  "GetSize OS_WIN demo_toolkit minimized_window \<noteq>
     rect_size (Widget_GetWindowBoundsInScreen demo_toolkit (window minimized_window)) \<and>
   GetPosition OS_WIN demo_toolkit minimized_window \<noteq>
     rect_origin (Widget_GetWindowBoundsInScreen demo_toolkit (window minimized_window))"
  by (simp add: GetSize_def GetPosition_def minimized_window_vals mk_Rect_def)

text \<open>
  Claim C6. \<^verbatim>\<open>Maximize()\<close> replaces the widget's state by the result of the toolkit's
  \<^verbatim>\<open>Maximize\<close> and changes no other member of the window; \<^verbatim>\<open>Unmaximize()\<close> and
  \<^verbatim>\<open>Restore()\<close> are the same operation, which does the same with the toolkit's
  \<^verbatim>\<open>Restore\<close>.
\<close>

theorem Maximize_Restore_delegate:
  "window (Maximize tk s) = Widget_Maximize tk (window s)
   \<and> Maximize tk s = s\<lparr>window := window (Maximize tk s)\<rparr>
   \<and> Unmaximize tk s = Restore tk s
   \<and> window (Restore tk s) = Widget_Restore tk (window s)
   \<and> Restore tk s = s\<lparr>window := window (Restore tk s)\<rparr>"
  by (simp add: Maximize_def Unmaximize_def Restore_def)

text \<open>
  Claim C7. On Windows, when the taskbar list is created and initialised,
  \<^verbatim>\<open>SetSkipTaskbar(skip)\<close> removes the tab of the window's handle if \<open>skip\<close> holds and
  adds it otherwise; when the creation or \<^verbatim>\<open>HrInit\<close> fails the window and the taskbar
  are unchanged. Nothing but the taskbar ever changes.
\<close>

theorem SetSkipTaskbar_win:
  "(\<not> FAILED create_hr \<and> \<not> FAILED init_hr \<longrightarrow>
      taskbar (SetSkipTaskbar OS_WIN tk create_hr init_hr skip s) =
        (if skip then taskbar s - {GetAcceleratedWidget tk (window s)}
         else insert (GetAcceleratedWidget tk (window s)) (taskbar s))) \<and>
   (FAILED create_hr \<or> FAILED init_hr \<longrightarrow>
      SetSkipTaskbar OS_WIN tk create_hr init_hr skip s = s) \<and>
   SetSkipTaskbar OS_WIN tk create_hr init_hr skip s =
     s\<lparr>taskbar := taskbar (SetSkipTaskbar OS_WIN tk create_hr init_hr skip s)\<rparr>"
  by (simp add: SetSkipTaskbar_def ITaskbarList_DeleteTab_def ITaskbarList_AddTab_def)

theorem SetSkipTaskbar_win_witness:
  "\<not> FAILED 0 \<and> FAILED 0x80004005 \<and>
   taskbar (demo_window OS_WIN True plain_options) = {3, 7} \<and>
   taskbar (SetSkipTaskbar OS_WIN demo_toolkit 0 0 True (demo_window OS_WIN True plain_options))
     = {3} \<and>
   taskbar (SetSkipTaskbar OS_WIN demo_toolkit 0 0 False
              (SetSkipTaskbar OS_WIN demo_toolkit 0 0 True (demo_window OS_WIN True plain_options)))
     = {3, 7} \<and>
   SetSkipTaskbar OS_WIN demo_toolkit 0 0x80004005 True (demo_window OS_WIN True plain_options)
     = demo_window OS_WIN True plain_options"
  using SetSkipTaskbar_win
      [where tk = demo_toolkit and create_hr = 0 and init_hr = 0 and skip = True
         and s = "demo_window OS_WIN True plain_options"]
    SetSkipTaskbar_win
      [where tk = demo_toolkit and create_hr = 0 and init_hr = 0 and skip = False
         and s = "SetSkipTaskbar OS_WIN demo_toolkit 0 0 True (demo_window OS_WIN True plain_options)"]
    SetSkipTaskbar_win
      [where tk = demo_toolkit and create_hr = 0 and init_hr = "0x80004005" and skip = True
         and s = "demo_window OS_WIN True plain_options"]
  by (simp add: FAILED_values demo_window_fields demo_window_handle SetSkipTaskbar_window) auto

text \<open>
  Claim C8. In every reachable window state the menu bar is a child of the contents view
  exactly when \<^verbatim>\<open>menu_bar_visible_\<close> holds; with a menu bar present the contents view
  has two children when the bar is visible and one when it is not; hence no call a window
  receives fails an assertion of \<^verbatim>\<open>SetMenuBarVisibility\<close>, and neither does toggling
  the visibility.
\<close>

theorem menu_bar_assertions_hold:
  assumes "reachable plat tk gen s"
  shows "(menu_bar_visible s \<longleftrightarrow> menu_bar_attached s) \<and>
         (menu_bar s \<noteq> None \<longrightarrow> child_count s = (if menu_bar_visible s then 2 else 1)) \<and>
         (\<forall>op. step plat tk gen op s \<noteq> Inl DCheckFailed) \<and>
         SetMenuBarVisibility (\<not> menu_bar_visible s) s \<noteq> Inl DCheckFailed"
proof -
  have c: "menu_bar_consistent s" using assms by (rule reachable_consistent)
  have "menu_bar_visible s \<longleftrightarrow> menu_bar_attached s"
    using c by (simp add: menu_bar_consistent_def menu_bar_attached_def)
  moreover have "child_count s = (if menu_bar_visible s then 2 else 1)"
    using c by (simp add: menu_bar_consistent_def child_count_def)
  moreover have "step plat tk gen op s \<noteq> Inl DCheckFailed" for op
    using step_consistent [OF c, of plat tk gen op] by auto
  moreover have "SetMenuBarVisibility (\<not> menu_bar_visible s) s \<noteq> Inl DCheckFailed"
    using SetMenuBarVisibility_toggle [OF c] by auto
  ultimately show ?thesis by simp
qed

text \<open>
  The theorem at two reachable windows: after \<^verbatim>\<open>SetMenu\<close> without autohide, and with
  autohide after \<^verbatim>\<open>SetMenu\<close>, Alt down and Alt up.
\<close>

theorem menu_bar_assertions_hold_witness:
  "reachable USE_X11 demo_toolkit demo_gen (menu_window plain_options) \<and>
   menu_bar (menu_window plain_options) \<noteq> None \<and>
   menu_bar_visible (menu_window plain_options) \<and>
   menu_bar_attached (menu_window plain_options) \<and>
   child_count (menu_window plain_options) = 2 \<and>
   step USE_X11 demo_toolkit demo_gen OpHandleMouseDown (menu_window plain_options)
     \<noteq> Inl DCheckFailed \<and>
   reachable USE_X11 demo_toolkit demo_gen shown_menu_window \<and>
   menu_bar_visible shown_menu_window \<and>
   menu_bar_attached shown_menu_window \<and>
   child_count shown_menu_window = 2 \<and>
   step USE_X11 demo_toolkit demo_gen OpHandleMouseDown shown_menu_window \<noteq> Inl DCheckFailed"
proof -
  note plain = menu_bar_assertions_hold [OF reachable_menu_window_plain]
  note shown = menu_bar_assertions_hold [OF reachable_shown_menu_window]
  from plain
  have "step USE_X11 demo_toolkit demo_gen OpHandleMouseDown (menu_window plain_options)
          \<noteq> Inl DCheckFailed"
    by blast
  moreover from shown
  have "step USE_X11 demo_toolkit demo_gen OpHandleMouseDown shown_menu_window
          \<noteq> Inl DCheckFailed"
    by blast
  ultimately show ?thesis
    using plain shown reachable_menu_window_plain reachable_shown_menu_window
    by (simp add: menu_window_plain_fields shown_menu_window_fields del: step.simps)
qed

text \<open>
  Claim C9. \<^verbatim>\<open>NativeWindowClientView::CanClose()\<close> returns false for every window, and
  the window it leaves is the one \<^verbatim>\<open>CloseWebContents()\<close> leaves.
\<close>

theorem CanClose_false:
  "snd (CanClose CloseWebContents s) = False \<and> fst (CanClose CloseWebContents s) = CloseWebContents s"
  by (simp add: CanClose_def)

text \<open>
  Claim C10. On a window without a frame \<^verbatim>\<open>SetContentSize(size)\<close> is \<^verbatim>\<open>SetSize(size)\<close>
  and \<^verbatim>\<open>GetContentSize()\<close> is \<^verbatim>\<open>GetSize()\<close>; neither depends on the conversion between
  client and window bounds of the toolkit nor on the menu bar, and the constructor of
  such a window does not depend on the conversion either.
\<close>

theorem frameless_content_size:
  assumes "\<not> has_frame s"
  shows "SetContentSize plat tk sz s = SetSize tk sz s \<and>
         GetContentSize plat tk s = GetSize plat tk s \<and>
         SetContentSize plat (tk\<lparr>GetWindowBoundsForClientBounds := conv\<rparr>) sz s =
           SetContentSize plat tk sz s \<and>
         GetContentSize plat (tk\<lparr>GetBoundsForClientView := client\<rparr>)
             (s\<lparr>menu_bar := mb, menu_bar_visible := vis\<rparr>) =
           GetContentSize plat tk s \<and>
         NativeWindowViews_new plat (tk\<lparr>GetWindowBoundsForClientBounds := conv\<rparr>)
             (has_frame s) opts fm0 tabs0 =
           NativeWindowViews_new plat tk (has_frame s) opts fm0 tabs0"
  using assms
  by (simp add: SetContentSize_def GetContentSize_def SetSize_def GetSize_def IsMinimized_def
      NativeWindowViews_new_def Let_def)

theorem frameless_content_size_witness:
  "\<not> has_frame (demo_window USE_X11 False plain_options) \<and>
   SetContentSize USE_X11 demo_toolkit \<lparr>size_width = 300, size_height = 200\<rparr>
       (demo_window USE_X11 False plain_options) =
     SetSize demo_toolkit \<lparr>size_width = 300, size_height = 200\<rparr>
       (demo_window USE_X11 False plain_options) \<and>
   GetContentSize USE_X11 demo_toolkit (demo_window USE_X11 False plain_options) =
     GetSize USE_X11 demo_toolkit (demo_window USE_X11 False plain_options)"
proof -
  have frameless: "\<not> has_frame (demo_window USE_X11 False plain_options)"
    by (simp add: demo_window_fields)
  note facts = frameless_content_size
      [OF frameless, where plat = USE_X11 and tk = demo_toolkit
         and sz = "\<lparr>size_width = 300, size_height = 200\<rparr>"]
  from frameless facts [THEN conjunct1] facts [THEN conjunct2, THEN conjunct1]
  show ?thesis by simp
qed

end
